theory Spec2Isabelle
  imports Main "HOL-Library.AList"
begin

section \<open>Python strings\<close>

text \<open>
  A Python \<open>str\<close> is modelled as a \<open>string\<close>; a \<open>char\<close> stands for the code point
  with the same number, so the model covers text whose code points are below 256.
  \<open>s.find(c)\<close> returns \<open>-1\<close> when \<open>c\<close> does not occur: here \<open>None\<close>. The other
  functions are \<open>s.startswith(p)\<close>, \<open>t in s\<close> (\<open>str_contains t s\<close>), \<open>s.split(d)\<close>,
  \<open>d.join(ws)\<close>, \<open>s.split(d, 1)\<close> for a \<open>d\<close> that occurs in \<open>s\<close> (\<open>split_once\<close>),
  \<open>s.strip()\<close> and \<open>s.strip(chars)\<close> (\<open>strip\<close>, given the characters to remove;
  \<open>py_isspace\<close> holds of the whitespace below 256), \<open>s.isascii()\<close>, and \<open>s.lower()\<close>
  on the characters of a URL scheme, which are ASCII.
\<close>

definition str_find :: "char \<Rightarrow> string \<Rightarrow> nat option" where
  "str_find c s = (if c \<in> set s then Some (length (takeWhile (\<lambda>x. x \<noteq> c) s)) else None)"

definition str_find_from :: "char \<Rightarrow> string \<Rightarrow> nat \<Rightarrow> nat option" where
  "str_find_from c s start = map_option (\<lambda>k. start + k) (str_find c (drop start s))"

definition str_rfind :: "char \<Rightarrow> string \<Rightarrow> nat option" where
  "str_rfind c s =
     (if c \<in> set s then Some (length s - 1 - length (takeWhile (\<lambda>x. x \<noteq> c) (rev s))) else None)"

fun startswith :: "string \<Rightarrow> string \<Rightarrow> bool" where
  "startswith s [] = True"
| "startswith [] (p # ps) = False"
| "startswith (c # cs) (p # ps) = (c = p \<and> startswith cs ps)"

fun str_contains :: "string \<Rightarrow> string \<Rightarrow> bool" where
  "str_contains t [] = (t = [])"
| "str_contains t (c # cs) = (startswith (c # cs) t \<or> str_contains t cs)"

fun split_on :: "char \<Rightarrow> string \<Rightarrow> string list" where
  "split_on d [] = [[]]"
| "split_on d (c # cs) =
     (if c = d then [] # split_on d cs
      else (case split_on d cs of [] \<Rightarrow> [[c]] | w # ws \<Rightarrow> (c # w) # ws))"

fun join :: "string \<Rightarrow> string list \<Rightarrow> string" where
  "join d [] = []"
| "join d [w] = w"
| "join d (w # ws) = w @ d @ join d ws"

definition split_once :: "char \<Rightarrow> string \<Rightarrow> string \<times> string" where
  "split_once d s = (takeWhile (\<lambda>x. x \<noteq> d) s, drop 1 (dropWhile (\<lambda>x. x \<noteq> d) s))"

definition py_isspace :: "char \<Rightarrow> bool" where
  "py_isspace c \<longleftrightarrow> (of_char c :: nat) \<in> {9, 10, 11, 12, 13, 28, 29, 30, 31, 32, 133, 160}"

definition strip :: "(char \<Rightarrow> bool) \<Rightarrow> string \<Rightarrow> string" where
  "strip P s = rev (dropWhile P (rev (dropWhile P s)))"

definition isascii :: "string \<Rightarrow> bool" where
  "isascii s \<longleftrightarrow> (\<forall>c \<in> set s. (of_char c :: nat) < 128)"

definition ascii_lowercase :: string where
  "ascii_lowercase = ''abcdefghijklmnopqrstuvwxyz''"

definition ascii_uppercase :: string where
  "ascii_uppercase = ''ABCDEFGHIJKLMNOPQRSTUVWXYZ''"

definition ascii_alpha :: "char \<Rightarrow> bool" where
  "ascii_alpha c \<longleftrightarrow> c \<in> set (ascii_lowercase @ ascii_uppercase)"

definition lower_char :: "char \<Rightarrow> char" where
  "lower_char c = (case map_of (zip ascii_uppercase ascii_lowercase) c of Some l \<Rightarrow> l | None \<Rightarrow> c)"

section \<open>The URL functions of the standard library\<close>

text \<open>
  \<open>Acme.path\<close> calls \<open>urlparse\<close> and \<open>urljoin\<close> of \<open>urllib.parse\<close>. They are embedded
  here as CPython 3.11 defines them, for \<open>str\<close> arguments and the default
  \<open>allow_fragments=True\<close> (the only way the client calls them). Two checks of
  \<open>urlsplit\<close> leave the string functions and are taken as parameters:
  \<open>_check_bracketed_host\<close> (the \<open>ipaddress\<close> module and a regular expression) and
  the NFKC test of \<open>_checknetloc\<close> (the \<open>unicodedata\<close> module), which is only
  reached for a network location that is not ASCII.
\<close>

datatype py_exn = ValueError string | TypeError string | AttributeError string | OtherError string

record pylib =
  check_bracketed_host :: "string \<Rightarrow> string option"
  nfkc_invalid :: "string \<Rightarrow> bool"

definition uses_relative :: "string list" where
  "uses_relative = ['''', ''ftp'', ''http'', ''gopher'', ''nntp'', ''imap'',
                    ''wais'', ''file'', ''https'', ''shttp'', ''mms'',
                    ''prospero'', ''rtsp'', ''rtsps'', ''rtspu'', ''sftp'',
                    ''svn'', ''svn+ssh'', ''ws'', ''wss'']"

definition uses_netloc :: "string list" where
  "uses_netloc = ['''', ''ftp'', ''http'', ''gopher'', ''nntp'', ''telnet'',
                  ''imap'', ''wais'', ''file'', ''mms'', ''https'', ''shttp'',
                  ''snews'', ''prospero'', ''rtsp'', ''rtsps'', ''rtspu'', ''rsync'',
                  ''svn'', ''svn+ssh'', ''sftp'', ''nfs'', ''git'', ''git+ssh'',
                  ''ws'', ''wss'']"

definition uses_params :: "string list" where
  "uses_params = ['''', ''ftp'', ''hdl'', ''prospero'', ''http'', ''imap'',
                  ''https'', ''shttp'', ''rtsp'', ''rtsps'', ''rtspu'', ''sip'',
                  ''sips'', ''mms'', ''sftp'', ''tel'']"

definition scheme_chars :: string where
  "scheme_chars = ascii_lowercase @ ascii_uppercase @ ''0123456789'' @ ''+-.''"

definition c0_control_or_space :: "char \<Rightarrow> bool" where
  "c0_control_or_space c \<longleftrightarrow> (of_char c :: nat) \<le> 32"

definition unsafe_url_byte :: "char \<Rightarrow> bool" where
  "unsafe_url_byte c \<longleftrightarrow> (of_char c :: nat) \<in> {9, 13, 10}"

definition splitparams :: "string \<Rightarrow> string \<times> string" where
  "splitparams url =
     (case str_rfind CHR ''/'' url of
        Some r \<Rightarrow>
          (case str_find_from CHR '';'' url r of
             None \<Rightarrow> (url, '''')
           | Some i \<Rightarrow> (take i url, drop (i + 1) url))
      | None \<Rightarrow>
          (case str_find CHR '';'' url of
             None \<Rightarrow> (butlast url, url)
           | Some i \<Rightarrow> (take i url, drop (i + 1) url)))"

definition splitnetloc :: "string \<Rightarrow> nat \<Rightarrow> string \<times> string" where
  "splitnetloc url start =
     (let delim = fold (\<lambda>c d. case str_find_from c url start of
                                  Some w \<Rightarrow> min d w | None \<Rightarrow> d)
                       ''/?#'' (length url)
      in (drop start (take delim url), drop delim url))"

definition checknetloc :: "pylib \<Rightarrow> string \<Rightarrow> string option" where
  "checknetloc lib netloc =
     (if netloc = [] \<or> isascii netloc then None
      else if nfkc_invalid lib netloc
        then Some (''netloc '' @ [CHR 0x27] @ netloc @ [CHR 0x27] @
                   '' contains invalid characters under NFKC normalization'')
        else None)"

definition bracketed_host :: "string \<Rightarrow> string" where
  "bracketed_host netloc =
     takeWhile (\<lambda>x. x \<noteq> CHR '']'') (drop 1 (dropWhile (\<lambda>x. x \<noteq> CHR ''['') netloc))"

definition urlsplit :: "pylib \<Rightarrow> string \<Rightarrow> string \<Rightarrow> py_exn + (string \<times> string \<times> string \<times> string \<times> string)" where
  "urlsplit lib url0 scheme0 =
     (let url1 = filter (\<lambda>c. \<not> unsafe_url_byte c) (dropWhile c0_control_or_space url0);
          scheme1 = filter (\<lambda>c. \<not> unsafe_url_byte c) (strip c0_control_or_space scheme0);
          (scheme, url2) =
            (case str_find CHR '':'' url1 of
               Some i \<Rightarrow>
                 if 0 < i \<and> ascii_alpha (hd url1) \<and> (\<forall>c \<in> set (take i url1). c \<in> set scheme_chars)
                 then (map lower_char (take i url1), drop (i + 1) url1)
                 else (scheme1, url1)
             | None \<Rightarrow> (scheme1, url1));
          (netloc, url3) = (if take 2 url2 = ''//'' then splitnetloc url2 2 else ('''', url2));
          (url4, fragment) = (if CHR ''#'' \<in> set url3 then split_once CHR ''#'' url3 else (url3, ''''));
          (url5, query) = (if CHR ''?'' \<in> set url4 then split_once CHR ''?'' url4 else (url4, ''''))
      in if take 2 url2 = ''//'' \<and> (CHR ''['' \<in> set netloc) \<noteq> (CHR '']'' \<in> set netloc)
           then Inl (ValueError ''Invalid IPv6 URL'')
         else if take 2 url2 = ''//'' \<and> CHR ''['' \<in> set netloc \<and> CHR '']'' \<in> set netloc
                 \<and> check_bracketed_host lib (bracketed_host netloc) \<noteq> None
           then Inl (ValueError (the (check_bracketed_host lib (bracketed_host netloc))))
         else (case checknetloc lib netloc of
                 Some msg \<Rightarrow> Inl (ValueError msg)
               | None \<Rightarrow> Inr (scheme, netloc, url5, query, fragment)))"

definition urlparse :: "pylib \<Rightarrow> string \<Rightarrow> string \<Rightarrow> py_exn + (string \<times> string \<times> string \<times> string \<times> string \<times> string)" where
  "urlparse lib url scheme0 =
     (case urlsplit lib url scheme0 of
        Inl e \<Rightarrow> Inl e
      | Inr (scheme, netloc, url1, query, fragment) \<Rightarrow>
          (let (url2, params) =
                 (if scheme \<in> set uses_params \<and> CHR '';'' \<in> set url1 then splitparams url1
                  else (url1, ''''))
           in Inr (scheme, netloc, url2, params, query, fragment)))"

definition urlunsplit :: "string \<times> string \<times> string \<times> string \<times> string \<Rightarrow> string" where
  "urlunsplit comps =
     (case comps of (scheme, netloc, url0, query, fragment) \<Rightarrow>
        (let url1 = (if netloc \<noteq> [] \<or> (scheme \<noteq> [] \<and> scheme \<in> set uses_netloc) \<or> take 2 url0 = ''//''
                     then ''//'' @ netloc @ (if url0 \<noteq> [] \<and> take 1 url0 \<noteq> ''/'' then ''/'' @ url0 else url0)
                     else url0);
             url2 = (if scheme \<noteq> [] then scheme @ '':'' @ url1 else url1);
             url3 = (if query \<noteq> [] then url2 @ ''?'' @ query else url2)
         in if fragment \<noteq> [] then url3 @ ''#'' @ fragment else url3))"

definition urlunparse :: "string \<times> string \<times> string \<times> string \<times> string \<times> string \<Rightarrow> string" where
  "urlunparse comps =
     (case comps of (scheme, netloc, url, params, query, fragment) \<Rightarrow>
        urlunsplit (scheme, netloc, (if params \<noteq> [] then url @ '';'' @ params else url), query, fragment))"

text \<open>
  The loop of \<open>urljoin\<close> over the segments: \<open>..\<close> pops the last resolved segment
  (nothing when there is none), \<open>.\<close> is skipped, any other segment is appended.
\<close>

fun resolve_segments :: "string list \<Rightarrow> string list \<Rightarrow> string list" where
  "resolve_segments resolved [] = resolved"
| "resolve_segments resolved (seg # segs) =
     (if seg = ''..'' then resolve_segments (butlast resolved) segs
      else if seg = ''.'' then resolve_segments resolved segs
      else resolve_segments (resolved @ [seg]) segs)"

text \<open>\<open>segments[1:-1] = filter(None, segments[1:-1])\<close>: the empty inner segments go.\<close>

definition filter_inner :: "string list \<Rightarrow> string list" where
  "filter_inner segments =
     (if length segments < 2 then segments
      else hd segments # filter (\<lambda>w. w \<noteq> []) (butlast (tl segments)) @ [last segments])"

definition urljoin :: "pylib \<Rightarrow> string \<Rightarrow> string \<Rightarrow> py_exn + string" where
  "urljoin lib base url =
     (if base = [] then Inr url
      else if url = [] then Inr base
      else
        (case urlparse lib base '''' of
           Inl e \<Rightarrow> Inl e
         | Inr (bscheme, bnetloc, bpath, bparams, bquery, bfragment) \<Rightarrow>
        (case urlparse lib url bscheme of
           Inl e \<Rightarrow> Inl e
         | Inr (scheme, netloc0, path0, params, query, fragment) \<Rightarrow>
             if scheme \<noteq> bscheme \<or> scheme \<notin> set uses_relative then Inr url
             else if scheme \<in> set uses_netloc \<and> netloc0 \<noteq> []
               then Inr (urlunparse (scheme, netloc0, path0, params, query, fragment))
             else
               (let netloc = (if scheme \<in> set uses_netloc then bnetloc else netloc0) in
                if path0 = [] \<and> params = []
                  then Inr (urlunparse (scheme, netloc, bpath, bparams,
                                        (if query = [] then bquery else query), fragment))
                else
                  (let base_parts0 = split_on CHR ''/'' bpath;
                       base_parts = (if last base_parts0 \<noteq> [] then butlast base_parts0 else base_parts0);
                       segments = (if take 1 path0 = ''/'' then split_on CHR ''/'' path0
                                   else filter_inner (base_parts @ split_on CHR ''/'' path0));
                       resolved0 = resolve_segments [] segments;
                       resolved_path = (if last segments \<in> {''.'', ''..''} then resolved0 @ [[]] else resolved0);
                       joined = join ''/'' resolved_path
                   in Inr (urlunparse (scheme, netloc, (if joined = [] then ''/'' else joined),
                                       params, query, fragment)))))))"

section \<open>Values, requests and responses\<close>

text \<open>
  Python values that travel in headers, payloads and JSON bodies. A dictionary is an
  association list in insertion order; \<open>d[k] = v\<close> is \<open>AList.update k v d\<close>, which
  overwrites in place or appends.
\<close>

datatype pyval =
    PNone
  | PBool bool
  | PInt int
  | PStr string
  | PList "pyval list"
  | PDict "(string \<times> pyval) list"

type_synonym dict = "(string \<times> pyval) list"

datatype http_method = GET | POST

record request =
  req_method :: http_method
  req_url :: string
  req_headers :: "(string \<times> string) list"
  req_data :: "string option"

text \<open>
  A response of the \<open>requests\<close> library: \<open>headers r name\<close> is \<open>r.headers.get(name)\<close>,
  \<open>content r\<close> the body, and \<open>json r\<close> what \<open>r.json()\<close> does: the parsed value, or the
  exception it raises (a body that is not JSON raises a \<open>ValueError\<close>).
\<close>

record response =
  status_code :: int
  headers :: "string \<Rightarrow> string option"
  content :: string
  json :: "py_exn + pyval"

text \<open>
  Modelled from the spec: \<open>errors.py\<close>, which declares the exception classes, is not among
  the sources. \<open>AcmeError\<close> carries what it is constructed with (a response, a caught
  exception or a message) and \<open>AccountAlreadyExistsError\<close> the response and the uri.
  \<open>Raised\<close> is any other Python exception that leaves an operation.
\<close>

datatype acme_arg = OfResponse response | OfException py_exn | OfMessage string

datatype error =
    AcmeError acme_arg
  | AccountAlreadyExistsError response "string option"
  | Raised py_exn

datatype registration_result = RegistrationResult pyval "string option" "string option"
datatype new_authorization_result = NewAuthorizationResult pyval "string option"
datatype issuance_result = IssuanceResult string "string option" "string option"

section \<open>The client and its world\<close>

text \<open>
  An \<open>Acme\<close> object with what it reaches: its base \<open>url\<close> and \<open>key\<close>, the package
  \<open>version\<close>, the two functions of \<open>crypto.py\<close> and the \<open>requests\<close> library.
  \<open>requests.get\<close> and \<open>requests.post\<close> first check the URL they are given: on a string
  that is not an http(s) URL they raise (\<open>MissingSchema\<close>, \<open>InvalidSchema\<close>,
  \<open>InvalidURL\<close>) and nothing is sent; \<open>invalid_url u = Some e\<close> says that they raise \<open>e\<close>
  on \<open>u\<close>. The remote side is \<open>transport\<close>: the response to a request that was sent,
  given the requests sent before it; it always answers (connection failures are
  outside the model).
\<close>

record 'k acme =
  url :: string
  key :: 'k
  version :: string
  generate_header :: "'k \<Rightarrow> dict"
  sign_request :: "'k \<Rightarrow> dict \<Rightarrow> dict \<Rightarrow> dict \<Rightarrow> string"
  invalid_url :: "string \<Rightarrow> py_exn option"
  transport :: "request list \<Rightarrow> request \<Rightarrow> response"
  lib :: pylib

text \<open>
  The mutable state: \<open>account.uri\<close>, the store of dictionary objects (a reference is an
  index into \<open>dicts\<close>; a caller's reference is below \<open>length (dicts s)\<close>), and the
  requests sent so far, oldest first (a request that \<open>requests\<close> refuses is not sent).
\<close>

record state =
  account_uri :: "string option"
  dicts :: "dict list"
  sent :: "request list"

definition alloc :: "dict \<Rightarrow> state \<Rightarrow> nat \<times> state" where
  "alloc d s = (length (dicts s), s\<lparr>dicts := dicts s @ [d]\<rparr>)"

definition setitem :: "nat \<Rightarrow> string \<Rightarrow> pyval \<Rightarrow> state \<Rightarrow> state" where
  "setitem r k v s = s\<lparr>dicts := (dicts s)[r := AList.update k v (dicts s ! r)]\<rparr>"

definition DEFAULT_HEADERS :: "'k acme \<Rightarrow> (string \<times> string) list" where
  "DEFAULT_HEADERS a =
     [(''User-Agent'', ''manuale '' @ version a @ '' (https://github.com/veeti/manuale)'')]"

definition dict_update :: "(string \<times> 'v) list \<Rightarrow> (string \<times> 'v) list \<Rightarrow> (string \<times> 'v) list" where
  "dict_update other d = fold (\<lambda>(k, v). AList.update k v) other d"

definition requests_get :: "'k acme \<Rightarrow> string \<Rightarrow> (string \<times> string) list \<Rightarrow> state \<Rightarrow> (py_exn + response) \<times> state" where
  "requests_get a u hs s =
     (case invalid_url a u of
        Some e \<Rightarrow> (Inl e, s)
      | None \<Rightarrow>
          (let r = \<lparr>req_method = GET, req_url = u, req_headers = hs, req_data = None\<rparr>
           in (Inr (transport a (sent s) r), s\<lparr>sent := sent s @ [r]\<rparr>)))"

definition requests_post :: "'k acme \<Rightarrow> string \<Rightarrow> string \<Rightarrow> (string \<times> string) list \<Rightarrow> state \<Rightarrow> (py_exn + response) \<times> state" where
  "requests_post a u body hs s =
     (case invalid_url a u of
        Some e \<Rightarrow> (Inl e, s)
      | None \<Rightarrow>
          (let r = \<lparr>req_method = POST, req_url = u, req_headers = hs, req_data = Some body\<rparr>
           in (Inr (transport a (sent s) r), s\<lparr>sent := sent s @ [r]\<rparr>)))"

section \<open>The operations of \<open>Acme\<close>\<close>

text \<open>
  Each method takes the state and returns the new state with its result: \<open>Inr\<close> the
  value returned, \<open>Inl\<close> the exception raised. In \<open>path\<close>, \<open>urlparse(path).path\<close> is the
  third component of the parse; an exception of \<open>urlparse\<close> or \<open>urljoin\<close> leaves \<open>path\<close>
  and the method that called it, and so does an exception of \<open>requests.get\<close> or
  \<open>requests.post\<close>.
\<close>

definition path :: "'k acme \<Rightarrow> string \<Rightarrow> py_exn + string" where
  "path a p =
     (if startswith p ''http''
      then (case urlparse (lib a) p '''' of
              Inl e \<Rightarrow> Inl e
            | Inr (scheme, netloc, ppath, params, query, fragment) \<Rightarrow> urljoin (lib a) (url a) ppath)
      else urljoin (lib a) (url a) p)"

definition get :: "'k acme \<Rightarrow> string \<Rightarrow> (string \<times> string) list option \<Rightarrow> state \<Rightarrow> (error + response) \<times> state" where
  "get a p hdrs s =
     (let h0 = DEFAULT_HEADERS a;
          h1 = (case hdrs of Some h \<Rightarrow> if h \<noteq> [] then dict_update h h0 else h0 | None \<Rightarrow> h0)
      in case path a p of
           Inl e \<Rightarrow> (Inl (Raised e), s)
         | Inr u \<Rightarrow>
             (case requests_get a u h1 s of
                (Inl e, s') \<Rightarrow> (Inl (Raised e), s')
              | (Inr r, s') \<Rightarrow> (Inr r, s')))"

definition post :: "'k acme \<Rightarrow> string \<Rightarrow> string \<Rightarrow> (string \<times> string) list option \<Rightarrow> state \<Rightarrow> (error + response) \<times> state" where
  "post a p body hdrs s =
     (let h0 = AList.update ''Content-Type'' ''application/json'' (DEFAULT_HEADERS a);
          h1 = (case hdrs of Some h \<Rightarrow> if h \<noteq> [] then dict_update h h0 else h0 | None \<Rightarrow> h0)
      in case path a p of
           Inl e \<Rightarrow> (Inl (Raised e), s)
         | Inr u \<Rightarrow>
             (case requests_post a u body h1 s of
                (Inl e, s') \<Rightarrow> (Inl (Raised e), s')
              | (Inr r, s') \<Rightarrow> (Inr r, s')))"

definition get_nonce :: "'k acme \<Rightarrow> state \<Rightarrow> (error + string option) \<times> state" where
  "get_nonce a s =
     (case get a ''/directory'' None s of
        (Inl e, s') \<Rightarrow> (Inl e, s')
      | (Inr r, s') \<Rightarrow> (Inr (headers r ''Replay-Nonce''), s'))"

text \<open>
  \<open>get_headers\<close> returns two references. \<open>copy.deepcopy\<close> puts an equal value at a new
  reference (the values of the store are whole trees, so nothing is shared); the
  right-hand side \<open>self.get_nonce()\<close> runs before the item is stored.
\<close>

definition get_headers :: "'k acme \<Rightarrow> state \<Rightarrow> (error + nat \<times> nat) \<times> state" where
  "get_headers a s =
     (case alloc (generate_header a (key a)) s of (header, s1) \<Rightarrow>
      case alloc (dicts s1 ! header) s1 of (protected_header, s2) \<Rightarrow>
      case get_nonce a s2 of
        (Inl e, s3) \<Rightarrow> (Inl e, s3)
      | (Inr nonce, s3) \<Rightarrow>
          (Inr (header, protected_header),
           setitem protected_header ''nonce'' (case nonce of None \<Rightarrow> PNone | Some n \<Rightarrow> PStr n) s3))"

text \<open>
  \<open>_get_link(header, type)\<close> is \<open>get_link header rel\<close>: \<open>link.index('>')\<close> raises
  \<open>ValueError\<close> when there is no \<open>>\<close>, and the function returns \<open>None\<close> when its loop ends.
\<close>

fun get_link_loop :: "string list \<Rightarrow> string \<Rightarrow> py_exn + string option" where
  "get_link_loop [] rel = Inr None"
| "get_link_loop (link0 # links) rel =
     (let link = strip py_isspace link0
      in if str_contains rel link
         then (case str_find CHR ''>'' link of
                 None \<Rightarrow> Inl (ValueError ''substring not found'')
               | Some j \<Rightarrow> Inr (Some (drop 1 (take j link))))
         else get_link_loop links rel)"

definition get_link :: "string option \<Rightarrow> string \<Rightarrow> py_exn + string option" where
  "get_link header rel =
     get_link_loop (split_on CHR '','' (case header of None \<Rightarrow> '''' | Some h \<Rightarrow> h)) rel"

text \<open>\<open>_json(response)\<close> is \<open>json_of\<close>: only a \<open>ValueError\<close> is caught.\<close>

definition json_of :: "response \<Rightarrow> error + pyval" where
  "json_of r =
     (case json r of
        Inr v \<Rightarrow> Inr v
      | Inl (ValueError m) \<Rightarrow> Inl (AcmeError (OfMessage (''Invalid JSON response. '' @ m)))
      | Inl e \<Rightarrow> Inl (Raised e))"

text \<open>\<open>str(n)\<close> of an integer, and \<open>str(status_code).startswith('2')\<close>.\<close>

definition digit_char :: "nat \<Rightarrow> char" where
  "digit_char d = ''0123456789'' ! d"

function str_nat :: "nat \<Rightarrow> string" where
  "str_nat n = (if n < 10 then [digit_char n] else str_nat (n div 10) @ [digit_char (n mod 10)])"
  by pat_completeness auto
termination
  by (relation "measure id") auto

declare str_nat.simps [simp del]

definition str_int :: "int \<Rightarrow> string" where
  "str_int i = (if i < 0 then CHR ''-'' # str_nat (nat (- i)) else str_nat (nat i))"

definition register :: "'k acme \<Rightarrow> string \<Rightarrow> state \<Rightarrow> (error + registration_result) \<times> state" where
  "register a email s =
     (case get_headers a s of
        (Inl e, s1) \<Rightarrow> (Inl e, s1)
      | (Inr (header, protected_header), s1) \<Rightarrow>
     (let request = sign_request a (key a) (dicts s1 ! header) (dicts s1 ! protected_header)
                      [(''resource'', PStr ''new-reg''),
                       (''contact'', PList [PStr (''mailto:'' @ email)])]
      in case post a ''/acme/new-reg'' request None s1 of
           (Inl e, s2) \<Rightarrow> (Inl e, s2)
         | (Inr response, s2) \<Rightarrow>
        (let uri = headers response ''Location''
         in if status_code response = 201
            then (let s3 = s2\<lparr>account_uri := uri\<rparr>
                  in case get_link (headers response ''Link'') ''terms-of-service'' of
                       Inl e \<Rightarrow> (Inl (Raised e), s3)
                     | Inr terms \<Rightarrow>
                         (case json_of response of
                            Inl e \<Rightarrow> (Inl e, s3)
                          | Inr contents \<Rightarrow> (Inr (RegistrationResult contents uri terms), s3)))
            else if status_code response = 409
              then (Inl (AccountAlreadyExistsError response uri), s2)
            else (Inl (AcmeError (OfResponse response)), s2))))"

text \<open>
  \<open>self.account.uri\<close> may be \<open>None\<close>; then \<open>path.startswith\<close> inside \<open>self.post\<close> raises
  \<open>AttributeError\<close> before anything is sent.
\<close>

definition none_startswith :: py_exn where
  "none_startswith =
     AttributeError ([CHR 0x27] @ ''NoneType'' @ [CHR 0x27] @ '' object has no attribute '' @
                     [CHR 0x27] @ ''startswith'' @ [CHR 0x27])"

definition get_registration :: "'k acme \<Rightarrow> state \<Rightarrow> (error + pyval) \<times> state" where
  "get_registration a s =
     (case get_headers a s of
        (Inl e, s1) \<Rightarrow> (Inl e, s1)
      | (Inr (header, protected_header), s1) \<Rightarrow>
     (let request = sign_request a (key a) (dicts s1 ! header) (dicts s1 ! protected_header)
                      [(''resource'', PStr ''reg'')]
      in case account_uri s1 of
           None \<Rightarrow> (Inl (Raised none_startswith), s1)
         | Some u \<Rightarrow>
        (case post a u request None s1 of
           (Inl e, s2) \<Rightarrow> (Inl e, s2)
         | (Inr response, s2) \<Rightarrow>
             if startswith (str_int (status_code response)) ''2''
             then (json_of response, s2)
             else (Inl (AcmeError (OfResponse response)), s2))))"

text \<open>
  \<open>params\<close> is \<open>None\<close> or a reference to a dictionary. \<open>params or {}\<close> keeps a reference
  to a dictionary that is not empty and makes a new dictionary otherwise.
\<close>

definition update_registration :: "'k acme \<Rightarrow> nat option \<Rightarrow> state \<Rightarrow> (error + bool) \<times> state" where
  "update_registration a params0 s =
     (case (case params0 of
              Some r \<Rightarrow> if dicts s ! r \<noteq> [] then (r, s) else alloc [] s
            | None \<Rightarrow> alloc [] s) of (params, s0) \<Rightarrow>
     (let s0' = setitem params ''resource'' (PStr ''reg'') s0
      in case get_headers a s0' of
           (Inl e, s1) \<Rightarrow> (Inl e, s1)
         | (Inr (header, protected_header), s1) \<Rightarrow>
        (let request = sign_request a (key a) (dicts s1 ! header) (dicts s1 ! protected_header)
                         (dicts s1 ! params)
         in case account_uri s1 of
              None \<Rightarrow> (Inl (Raised none_startswith), s1)
            | Some u \<Rightarrow>
           (case post a u request None s1 of
              (Inl e, s2) \<Rightarrow> (Inl e, s2)
            | (Inr response, s2) \<Rightarrow>
                if startswith (str_int (status_code response)) ''2''
                then (Inr True, s2)
                else (Inl (AcmeError (OfResponse response)), s2)))))"

definition new_authorization :: "'k acme \<Rightarrow> string \<Rightarrow> state \<Rightarrow> (error + new_authorization_result) \<times> state" where
  "new_authorization a domain s =
     (case get_headers a s of
        (Inl e, s1) \<Rightarrow> (Inl e, s1)
      | (Inr (header, protected_header), s1) \<Rightarrow>
     (let request = sign_request a (key a) (dicts s1 ! header) (dicts s1 ! protected_header)
                      [(''resource'', PStr ''new-authz''),
                       (''identifier'', PDict [(''type'', PStr ''dns''), (''value'', PStr domain)])]
      in case post a ''/acme/new-authz'' request None s1 of
           (Inl e, s2) \<Rightarrow> (Inl e, s2)
         | (Inr response, s2) \<Rightarrow>
             if status_code response = 201
             then (case json_of response of
                     Inl e \<Rightarrow> (Inl e, s2)
                   | Inr contents \<Rightarrow>
                       (Inr (NewAuthorizationResult contents (headers response ''Location'')), s2))
             else (Inl (AcmeError (OfResponse response)), s2)))"

definition validate_authorization :: "'k acme \<Rightarrow> string \<Rightarrow> string \<Rightarrow> string \<Rightarrow> state \<Rightarrow> (error + bool) \<times> state" where
  "validate_authorization a uri type' key_authorization s =
     (case get_headers a s of
        (Inl e, s1) \<Rightarrow> (Inl e, s1)
      | (Inr (header, protected_header), s1) \<Rightarrow>
     (let request = sign_request a (key a) (dicts s1 ! header) (dicts s1 ! protected_header)
                      [(''resource'', PStr ''challenge''),
                       (''type'', PStr type'),
                       (''keyAuthorization'', PStr key_authorization)]
      in case post a uri request None s1 of
           (Inl e, s2) \<Rightarrow> (Inl e, s2)
         | (Inr response, s2) \<Rightarrow>
             if startswith (str_int (status_code response)) ''2''
             then (Inr True, s2)
             else (Inl (AcmeError (OfResponse response)), s2)))"

definition get_authorization :: "'k acme \<Rightarrow> string \<Rightarrow> state \<Rightarrow> (error + pyval) \<times> state" where
  "get_authorization a uri s =
     (case get a uri None s of
        (Inl e, s1) \<Rightarrow> (Inl e, s1)
      | (Inr response, s1) \<Rightarrow>
          (case json response of
             Inr v \<Rightarrow> (Inr v, s1)
           | Inl (OtherError m) \<Rightarrow> (Inl (Raised (OtherError m)), s1)
           | Inl e \<Rightarrow> (Inl (AcmeError (OfException e)), s1)))"

text \<open>
  \<open>issue_certificate\<close>: \<open>if chain:\<close> holds for a string that is not empty; the issuer
  certificate is then fetched with \<open>requests.get\<close> itself, not with \<open>self.get\<close>, and
  an exception of that call leaves \<open>issue_certificate\<close>.
\<close>

definition issue_certificate :: "'k acme \<Rightarrow> string \<Rightarrow> state \<Rightarrow> (error + issuance_result) \<times> state" where
  "issue_certificate a csr s =
     (case get_headers a s of
        (Inl e, s1) \<Rightarrow> (Inl e, s1)
      | (Inr (header, protected), s1) \<Rightarrow>
     (let http_headers = [(''Accept'', ''application/pkix-cert'')];
          request = sign_request a (key a) (dicts s1 ! header) (dicts s1 ! protected)
                      [(''resource'', PStr ''new-cert''), (''csr'', PStr csr)]
      in case post a ''/acme/new-cert'' request (Some http_headers) s1 of
           (Inl e, s2) \<Rightarrow> (Inl e, s2)
         | (Inr response, s2) \<Rightarrow>
             if status_code response = 201
             then (case get_link (headers response ''Link'') ''up'' of
                     Inl e \<Rightarrow> (Inl (Raised e), s2)
                   | Inr None \<Rightarrow>
                       (Inr (IssuanceResult (content response) (headers response ''Location'') None), s2)
                   | Inr (Some chain) \<Rightarrow>
                       if chain \<noteq> []
                       then (case requests_get a chain (DEFAULT_HEADERS a) s2 of
                               (Inl e, s3) \<Rightarrow> (Inl (Raised e), s3)
                             | (Inr r, s3) \<Rightarrow>
                                 (Inr (IssuanceResult (content response) (headers response ''Location'')
                                         (Some (content r))), s3))
                       else (Inr (IssuanceResult (content response) (headers response ''Location'')
                                    (Some chain)), s2))
             else (Inl (AcmeError (OfResponse response)), s2)))"

section \<open>Example runs\<close>

text \<open>
  A client at \<open>https://ca.example/\<close> whose server answers every \<open>GET\<close> with \<open>g\<close> and
  every \<open>POST\<close> with \<open>r\<close>, and whose \<open>requests\<close> library refuses a URL that begins with
  neither \<open>http://\<close> nor \<open>https://\<close>; the examples below run the operations on it.
  \<open>ex_acme_at base g r\<close> is the same client at the base URL \<open>base\<close>. \<open>ex_state ds\<close>
  is a state with the dictionaries \<open>ds\<close>, an account that has a URI and nothing sent;
  \<open>ex_directory\<close> is a response that carries a nonce; \<open>ex_response code link body\<close> is a
  response with that status, that \<open>Link\<close> header and that outcome of \<open>json()\<close>.
\<close>

definition ex_lib :: pylib where
  "ex_lib = \<lparr>check_bracketed_host = (\<lambda>h. None), nfkc_invalid = (\<lambda>n. False)\<rparr>"

definition ex_acme :: "response \<Rightarrow> response \<Rightarrow> unit acme" where
  "ex_acme g r =
     \<lparr>url = ''https://ca.example/'', key = (), version = ''1.1.0'',
      generate_header = (\<lambda>k. [(''alg'', PStr ''RS256'')]),
      sign_request = (\<lambda>k header protected payload. ''signed''),
      invalid_url = (\<lambda>u. if startswith u ''http://'' \<or> startswith u ''https://'' then None
                          else Some (ValueError ''No connection adapters were found'')),
      transport = (\<lambda>hist req. if req_method req = POST then r else g),
      lib = ex_lib\<rparr>"

definition ex_acme_at :: "string \<Rightarrow> response \<Rightarrow> response \<Rightarrow> unit acme" where
  "ex_acme_at base g r = (ex_acme g r)\<lparr>url := base\<rparr>"

definition ex_state :: "dict list \<Rightarrow> state" where
  "ex_state ds = \<lparr>account_uri = Some ''https://ca.example/acme/reg/1'', dicts = ds, sent = []\<rparr>"

definition ex_directory :: response where
  "ex_directory =
     \<lparr>status_code = 200,
      headers = (\<lambda>n. if n = ''Replay-Nonce'' then Some ''nonce-1'' else None),
      content = ''ISSUER-DER'',
      json = Inr (PDict [(''status'', PStr ''valid'')])\<rparr>"

definition ex_response :: "int \<Rightarrow> string option \<Rightarrow> (py_exn + pyval) \<Rightarrow> response" where
  "ex_response code link body =
     \<lparr>status_code = code,
      headers = (\<lambda>n. if n = ''Location'' then Some ''https://ca.example/acme/new/7''
                      else if n = ''Link'' then link else None),
      content = ''BODY'',
      json = body\<rparr>"

section \<open>Facts about the string functions\<close>

lemma str_find_first: "c \<notin> set u \<Longrightarrow> str_find c (u @ c # rest) = Some (length u)"
  by (induction u) (auto simp: str_find_def)

section \<open>The Link header\<close>

text \<open>The loop of \<open>_get_link\<close> stops at the first stripped entry that contains the relation.\<close>

lemma get_link_loop_find:
  "get_link_loop links rel =
     (case List.find (str_contains rel) (map (strip py_isspace) links) of
        None \<Rightarrow> Inr None
      | Some e \<Rightarrow>
          (case str_find CHR ''>'' e of
             None \<Rightarrow> Inl (ValueError ''substring not found'')
           | Some j \<Rightarrow> Inr (Some (drop 1 (take j e)))))"
  by (induction links) (simp_all add: Let_def)

text \<open>
  Claim C7, as amended. The parser takes the first comma-separated entry, stripped of
  surrounding whitespace, whose text contains the relation type. When no entry contains
  it, the result is the absent value \<open>None\<close>. When that entry begins with \<open><\<close> and has a
  \<open>>\<close>, the result is the text between that \<open><\<close> and the first \<open>>\<close>; on the header of
  the specification and the relation \<open>up\<close> it is \<open>https://ca.example/issuer\<close>.
\<close>

theorem get_link_first_entry:
  fixes header :: "string option" and rel :: string
  defines "entries \<equiv> map (strip py_isspace)
                        (split_on CHR '','' (case header of None \<Rightarrow> [] | Some h \<Rightarrow> h))"
  shows "(List.find (str_contains rel) entries = None \<longrightarrow> get_link header rel = Inr None)
       \<and> (\<forall>u rest. List.find (str_contains rel) entries = Some (CHR ''<'' # u @ CHR ''>'' # rest)
                    \<and> CHR ''>'' \<notin> set u
             \<longrightarrow> get_link header rel = Inr (Some u))
       \<and> get_link (Some (''<https://ca.example/acct/1>;rel='' @ [CHR 0x22] @ ''terms-of-service'' @ [CHR 0x22]
                          @ '', <https://ca.example/issuer>;rel='' @ [CHR 0x22] @ ''up'' @ [CHR 0x22])) ''up''
           = Inr (Some ''https://ca.example/issuer'')"
proof (intro conjI allI impI)
  assume "List.find (str_contains rel) entries = None"
  then show "get_link header rel = Inr None"
    by (simp add: get_link_def get_link_loop_find entries_def)
next
  fix u rest
  assume h: "List.find (str_contains rel) entries = Some (CHR ''<'' # u @ CHR ''>'' # rest)
               \<and> CHR ''>'' \<notin> set u"
  then have "str_find CHR ''>'' (CHR ''<'' # u @ CHR ''>'' # rest) = Some (Suc (length u))"
    using str_find_first [of "CHR ''>''" "CHR ''<'' # u" rest] by simp
  with h show "get_link header rel = Inr (Some u)"
    by (simp add: get_link_def get_link_loop_find entries_def)
next
  show "get_link (Some (''<https://ca.example/acct/1>;rel='' @ [CHR 0x22] @ ''terms-of-service'' @ [CHR 0x22]
                          @ '', <https://ca.example/issuer>;rel='' @ [CHR 0x22] @ ''up'' @ [CHR 0x22])) ''up''
           = Inr (Some ''https://ca.example/issuer'')"
    by (simp add: get_link_def strip_def py_isspace_def str_find_def)
qed

theorem get_link_first_entry_witness:
  "get_link (Some ''<https://ca.example/issuer>;rel=up'') ''terms-of-service'' = Inr None
   \<and> get_link (Some ''<https://ca.example/terms>;rel=terms-of-service, <https://ca.example/issuer>;rel=up'') ''up''
       = Inr (Some ''https://ca.example/issuer'')"
proof -
  have a: "List.find (str_contains ''terms-of-service'')
             (map (strip py_isspace) (split_on CHR '','' ''<https://ca.example/issuer>;rel=up'')) = None"
    by (simp add: strip_def py_isspace_def)
  have b: "List.find (str_contains ''up'')
             (map (strip py_isspace)
                (split_on CHR '',''
                   ''<https://ca.example/terms>;rel=terms-of-service, <https://ca.example/issuer>;rel=up''))
           = Some (CHR ''<'' # ''https://ca.example/issuer'' @ CHR ''>'' # '';rel=up'')
           \<and> CHR ''>'' \<notin> set ''https://ca.example/issuer''"
    by (simp add: strip_def py_isspace_def)
  have c: "get_link (Some ''<https://ca.example/issuer>;rel=up'') ''terms-of-service'' = Inr None"
    using a get_link_first_entry [where header = "Some ''<https://ca.example/issuer>;rel=up''"
          and rel = "''terms-of-service''", THEN conjunct1]
    by (simp only: option.case simp_thms)
  have d: "get_link (Some ''<https://ca.example/terms>;rel=terms-of-service, <https://ca.example/issuer>;rel=up'') ''up''
             = Inr (Some ''https://ca.example/issuer'')"
    using b get_link_first_entry [where rel = "''up''"
          and header = "Some ''<https://ca.example/terms>;rel=terms-of-service, <https://ca.example/issuer>;rel=up''",
          THEN conjunct2, THEN conjunct1, rule_format, of "''https://ca.example/issuer''" "'';rel=up''"]
    by (simp only: option.case simp_thms)
  from c d show ?thesis by (rule conjI)
qed

text \<open>
  Claim C7 as stated fails on an entry that contains the relation type and does not begin
  with \<open><\<close>: the slice \<open>link[1:link.index('>')]\<close> drops the first character, whatever it
  is, so for the header \<open>rel=up; <https://ca.example/issuer>\<close> the result is not the URL
  between \<open><\<close> and \<open>>\<close>.
\<close>

theorem get_link_counterexample:
  "get_link (Some ''rel=up; <https://ca.example/issuer>'') ''up''
     = Inr (Some ''el=up; <https://ca.example/issuer'')"
  by (simp add: get_link_def strip_def py_isspace_def str_find_def)

section \<open>Requests and the header builder\<close>

text \<open>
  \<open>get\<close> and \<open>post\<close> touch nothing but the list of requests sent; what they send
  goes to the URL that \<open>path\<close> gives.
\<close>

lemma get_frame:
  "get a p hdrs s = (res, s') \<Longrightarrow> account_uri s' = account_uri s \<and> dicts s' = dicts s"
  by (auto simp: get_def requests_get_def Let_def split: sum.splits option.splits)

lemma post_frame:
  "post a p body hdrs s = (res, s') \<Longrightarrow> account_uri s' = account_uri s \<and> dicts s' = dicts s"
  by (auto simp: post_def requests_post_def Let_def split: sum.splits option.splits)

lemma post_sent:
  "post a p body hdrs s = (Inr r, s') \<Longrightarrow>
     \<exists>u hs. path a p = Inr u \<and> invalid_url a u = None
        \<and> r = transport a (sent s) \<lparr>req_method = POST, req_url = u, req_headers = hs, req_data = Some body\<rparr>
        \<and> sent s' = sent s @ [\<lparr>req_method = POST, req_url = u, req_headers = hs, req_data = Some body\<rparr>]"
  by (auto simp: post_def requests_post_def Let_def split: sum.splits option.splits)

lemma get_sent:
  "get a p hdrs s = (Inr r, s') \<Longrightarrow>
     \<exists>u hs. path a p = Inr u \<and> invalid_url a u = None
        \<and> r = transport a (sent s) \<lparr>req_method = GET, req_url = u, req_headers = hs, req_data = None\<rparr>
        \<and> sent s' = sent s @ [\<lparr>req_method = GET, req_url = u, req_headers = hs, req_data = None\<rparr>]"
  by (auto simp: get_def requests_get_def Let_def split: sum.splits option.splits)

lemma get_run:
  "path a p = Inr u \<Longrightarrow> invalid_url a u = None \<Longrightarrow>
     get a p None s =
       (Inr (transport a (sent s) \<lparr>req_method = GET, req_url = u, req_headers = DEFAULT_HEADERS a, req_data = None\<rparr>),
        s\<lparr>sent := sent s @ [\<lparr>req_method = GET, req_url = u, req_headers = DEFAULT_HEADERS a, req_data = None\<rparr>]\<rparr>)"
  by (simp add: get_def requests_get_def Let_def)

lemma post_ok:
  "path a p = Inr u \<Longrightarrow> invalid_url a u = None \<Longrightarrow> \<exists>hs. post a p body hdrs s =
       (Inr (transport a (sent s) \<lparr>req_method = POST, req_url = u, req_headers = hs, req_data = Some body\<rparr>),
        s\<lparr>sent := sent s @ [\<lparr>req_method = POST, req_url = u, req_headers = hs, req_data = Some body\<rparr>]\<rparr>)"
  by (simp add: post_def requests_post_def Let_def) (rule exI, rule conjI, (rule refl)+)

lemma get_headers_run:
  assumes "path a ''/directory'' = Inr d" and "invalid_url a d = None"
  shows "get_headers a s =
     (Inr (length (dicts s), Suc (length (dicts s))),
      s\<lparr>dicts := dicts s @ [generate_header a (key a),
              AList.update ''nonce''
                (case headers (transport a (sent s)
                        \<lparr>req_method = GET, req_url = d, req_headers = DEFAULT_HEADERS a, req_data = None\<rparr>)
                      ''Replay-Nonce'' of None \<Rightarrow> PNone | Some n \<Rightarrow> PStr n)
                (generate_header a (key a))],
         sent := sent s @ [\<lparr>req_method = GET, req_url = d, req_headers = DEFAULT_HEADERS a, req_data = None\<rparr>]\<rparr>)"
  using assms
  by (simp add: get_headers_def alloc_def get_nonce_def get_run setitem_def nth_append)

lemma get_headers_frame:
  "get_headers a s = (res, s1) \<Longrightarrow>
     account_uri s1 = account_uri s \<and> length (dicts s) \<le> length (dicts s1)
     \<and> (\<forall>i < length (dicts s). dicts s1 ! i = dicts s ! i)"
  by (auto simp: get_headers_def alloc_def get_nonce_def setitem_def nth_append
           split: prod.splits sum.splits dest!: get_frame)

text \<open>
  A request that \<open>requests\<close> refuses raises the exception of \<open>requests\<close> and sends
  nothing.
\<close>

lemma get_refused:
  "path a p = Inr u \<Longrightarrow> invalid_url a u = Some e \<Longrightarrow> get a p hdrs s = (Inl (Raised e), s)"
  by (simp add: get_def requests_get_def Let_def)

lemma post_refused:
  "path a p = Inr u \<Longrightarrow> invalid_url a u = Some e \<Longrightarrow> post a p body hdrs s = (Inl (Raised e), s)"
  by (simp add: post_def requests_post_def Let_def)

section \<open>The example client\<close>

lemmas url_defs = path_def urljoin_def urlparse_def urlsplit_def urlunparse_def urlunsplit_def
  splitnetloc_def splitparams_def checknetloc_def isascii_def str_find_def str_find_from_def str_rfind_def
  split_once_def strip_def c0_control_or_space_def unsafe_url_byte_def ascii_alpha_def lower_char_def
  ascii_lowercase_def ascii_uppercase_def scheme_chars_def uses_relative_def uses_netloc_def uses_params_def
  filter_inner_def Let_def

lemma ex_path_directory: "path (ex_acme g r) ''/directory'' = Inr ''https://ca.example/directory''"
  by (simp add: url_defs ex_acme_def ex_lib_def)

lemma ex_path_new_reg: "path (ex_acme g r) ''/acme/new-reg'' = Inr ''https://ca.example/acme/new-reg''"
  by (simp add: url_defs ex_acme_def ex_lib_def)

lemma ex_url:
  "invalid_url (ex_acme g r)
     (CHR ''h'' # CHR ''t'' # CHR ''t'' # CHR ''p'' # CHR ''s'' # CHR '':'' # CHR ''/'' # CHR ''/'' # rest) = None"
  by (simp add: ex_acme_def)

lemma ex_get_headers:
  "get_headers (ex_acme g r) s =
     (Inr (length (dicts s), Suc (length (dicts s))), snd (get_headers (ex_acme g r) s))"
  by (simp add: get_headers_run [OF ex_path_directory ex_url])

lemma ex_post:
  assumes "path (ex_acme g r) p = Inr u" and "invalid_url (ex_acme g r) u = None"
  shows "post (ex_acme g r) p body hdrs s = (Inr r, snd (post (ex_acme g r) p body hdrs s))"
proof -
  from post_ok [OF assms, of body hdrs s] obtain hs where
    "post (ex_acme g r) p body hdrs s =
       (Inr (transport (ex_acme g r) (sent s)
               \<lparr>req_method = POST, req_url = u, req_headers = hs, req_data = Some body\<rparr>),
        s\<lparr>sent := sent s @ [\<lparr>req_method = POST, req_url = u, req_headers = hs, req_data = Some body\<rparr>]\<rparr>)"
    by blast
  then show ?thesis by (simp add: ex_acme_def)
qed

section \<open>Registration\<close>

text \<open>
  Claim C2. Let \<open>register(email)\<close> receive \<open>response\<close> to its \<open>POST\<close>. When the status
  is 409 the call raises \<open>AccountAlreadyExistsError\<close> carrying the response and the
  value of its \<open>Location\<close> header, and when the status is neither 201 nor 409 it raises
  \<open>AcmeError\<close> carrying that response; in both cases \<open>account.uri\<close> is what it was
  before the call.
\<close>

theorem register_rejected:
  assumes "get_headers a s = (Inr (header, protected_header), s1)"
    and "post a ''/acme/new-reg''
           (sign_request a (key a) (dicts s1 ! header) (dicts s1 ! protected_header)
              [(''resource'', PStr ''new-reg''), (''contact'', PList [PStr (''mailto:'' @ email)])])
           None s1 = (Inr response, s2)"
  shows "(status_code response = 409 \<longrightarrow>
            register a email s
              = (Inl (AccountAlreadyExistsError response (headers response ''Location'')), s2)
            \<and> account_uri s2 = account_uri s)
       \<and> (status_code response \<noteq> 201 \<and> status_code response \<noteq> 409 \<longrightarrow>
            register a email s = (Inl (AcmeError (OfResponse response)), s2)
            \<and> account_uri s2 = account_uri s)"
proof -
  have "account_uri s1 = account_uri s"
    using assms(1) by (simp add: get_headers_frame)
  moreover have "account_uri s2 = account_uri s1"
    using assms(2) by (simp add: post_frame)
  ultimately show ?thesis
    using assms by (simp add: register_def Let_def)
qed

theorem register_rejected_witness:
  "fst (register (ex_acme ex_directory (ex_response 409 None (Inr PNone))) ''admin@example.org'' (ex_state []))
     = Inl (AccountAlreadyExistsError (ex_response 409 None (Inr PNone)) (Some ''https://ca.example/acme/new/7''))
   \<and> account_uri (snd (register (ex_acme ex_directory (ex_response 409 None (Inr PNone)))
                          ''admin@example.org'' (ex_state [])))
     = Some ''https://ca.example/acme/reg/1''
   \<and> fst (register (ex_acme ex_directory (ex_response 500 None (Inr PNone))) ''admin@example.org'' (ex_state []))
     = Inl (AcmeError (OfResponse (ex_response 500 None (Inr PNone))))
   \<and> account_uri (snd (register (ex_acme ex_directory (ex_response 500 None (Inr PNone)))
                          ''admin@example.org'' (ex_state [])))
     = Some ''https://ca.example/acme/reg/1''"
proof -
  have "status_code (ex_response 409 None (Inr PNone)) = 409"
    and "status_code (ex_response 500 None (Inr PNone)) \<noteq> 201
         \<and> status_code (ex_response 500 None (Inr PNone)) \<noteq> 409"
    and "headers (ex_response 409 None (Inr PNone)) ''Location'' = Some ''https://ca.example/acme/new/7''"
    and "account_uri (ex_state []) = Some ''https://ca.example/acme/reg/1''"
    by (simp_all add: ex_response_def ex_state_def)
  then show ?thesis
    using register_rejected
            [OF ex_get_headers [of ex_directory "ex_response 409 None (Inr PNone)" "ex_state []"]
                ex_post [OF ex_path_new_reg ex_url]]
          register_rejected
            [OF ex_get_headers [of ex_directory "ex_response 500 None (Inr PNone)" "ex_state []"]
                ex_post [OF ex_path_new_reg ex_url]]
    by simp
qed

text \<open>What \<open>register\<close> does with the response to its \<open>POST\<close>.\<close>

lemma register_run:
  assumes "get_headers a s = (Inr (header, protected_header), s1)"
    and "post a ''/acme/new-reg''
           (sign_request a (key a) (dicts s1 ! header) (dicts s1 ! protected_header)
              [(''resource'', PStr ''new-reg''), (''contact'', PList [PStr (''mailto:'' @ email)])])
           None s1 = (Inr response, s2)"
  shows "register a email s =
     (if status_code response = 201
      then (case get_link (headers response ''Link'') ''terms-of-service'' of
              Inl e \<Rightarrow> (Inl (Raised e), s2\<lparr>account_uri := headers response ''Location''\<rparr>)
            | Inr terms \<Rightarrow>
                (case json_of response of
                   Inl e \<Rightarrow> (Inl e, s2\<lparr>account_uri := headers response ''Location''\<rparr>)
                 | Inr contents \<Rightarrow>
                     (Inr (RegistrationResult contents (headers response ''Location'') terms),
                      s2\<lparr>account_uri := headers response ''Location''\<rparr>)))
      else if status_code response = 409
        then (Inl (AccountAlreadyExistsError response (headers response ''Location'')), s2)
      else (Inl (AcmeError (OfResponse response)), s2))"
  using assms by (simp add: register_def Let_def)

lemmas ex_register = register_run [OF ex_get_headers ex_post [OF ex_path_new_reg ex_url]]

text \<open>
  Claim C1, as amended. Let \<open>register(email)\<close> receive a response with status 201. Then
  \<open>account.uri\<close> is set to exactly the value of the \<open>Location\<close> header. When moreover the
  body parses as JSON and the lookup of the terms-of-service entry in the \<open>Link\<close> header
  completes, the call returns a \<open>RegistrationResult\<close> whose \<open>uri\<close> is that \<open>Location\<close>
  value and whose \<open>terms\<close> is the URL found in the \<open>Link\<close> header (absent when no entry
  names the relation).
\<close>

theorem register_created:
  assumes "get_headers a s = (Inr (header, protected_header), s1)"
    and "post a ''/acme/new-reg''
           (sign_request a (key a) (dicts s1 ! header) (dicts s1 ! protected_header)
              [(''resource'', PStr ''new-reg''), (''contact'', PList [PStr (''mailto:'' @ email)])])
           None s1 = (Inr response, s2)"
    and "status_code response = 201"
  shows "account_uri (snd (register a email s)) = headers response ''Location''
       \<and> (\<forall>contents terms.
             json response = Inr contents
             \<and> get_link (headers response ''Link'') ''terms-of-service'' = Inr terms
             \<longrightarrow> register a email s
                   = (Inr (RegistrationResult contents (headers response ''Location'') terms),
                      s2\<lparr>account_uri := headers response ''Location''\<rparr>))"
  using assms
  by (auto simp: register_def Let_def json_of_def split: sum.splits py_exn.splits)

theorem register_created_witness:
  "fst (register (ex_acme ex_directory
                    (ex_response 201 (Some ''<https://ca.example/terms>;rel=terms-of-service'')
                       (Inr (PDict [(''status'', PStr ''valid'')]))))
          ''admin@example.org'' (ex_state []))
     = Inr (RegistrationResult (PDict [(''status'', PStr ''valid'')])
              (Some ''https://ca.example/acme/new/7'') (Some ''https://ca.example/terms''))
   \<and> account_uri (snd (register (ex_acme ex_directory
                    (ex_response 201 (Some ''<https://ca.example/terms>;rel=terms-of-service'')
                       (Inr (PDict [(''status'', PStr ''valid'')]))))
          ''admin@example.org'' (ex_state [])))
     = Some ''https://ca.example/acme/new/7''"
proof -
  let ?r = "ex_response 201 (Some ''<https://ca.example/terms>;rel=terms-of-service'')
              (Inr (PDict [(''status'', PStr ''valid'')]))"
  have "status_code ?r = 201"
    and "headers ?r ''Location'' = Some ''https://ca.example/acme/new/7''"
    and "json ?r = Inr (PDict [(''status'', PStr ''valid'')])"
    and "get_link (headers ?r ''Link'') ''terms-of-service'' = Inr (Some ''https://ca.example/terms'')"
    by (simp_all add: ex_response_def get_link_def strip_def py_isspace_def str_find_def)
  then show ?thesis
    using register_created
            [OF ex_get_headers [of ex_directory ?r "ex_state []"] ex_post [OF ex_path_new_reg ex_url]]
    by simp
qed

text \<open>
  Claim C1 as stated fails on a 201 response whose body is not JSON: \<open>account.uri\<close> is
  set, and then \<open>_json\<close> raises \<open>AcmeError\<close>, so no \<open>RegistrationResult\<close> is returned.
\<close>

theorem register_created_counterexample:
  "status_code (ex_response 201 None (Inl (ValueError ''Expecting value''))) = 201
   \<and> fst (register (ex_acme ex_directory (ex_response 201 None (Inl (ValueError ''Expecting value''))))
            ''admin@example.org'' (ex_state []))
       = Inl (AcmeError (OfMessage ''Invalid JSON response. Expecting value''))
   \<and> account_uri (snd (register (ex_acme ex_directory
                                    (ex_response 201 None (Inl (ValueError ''Expecting value''))))
                          ''admin@example.org'' (ex_state [])))
       = Some ''https://ca.example/acme/new/7''"
  by (simp add: ex_register)
     (simp add: ex_response_def get_link_def json_of_def strip_def py_isspace_def Let_def)

section \<open>The other operations, given the response\<close>

lemma get_registration_run:
  assumes "get_headers a s = (Inr (header, protected_header), s1)"
    and "account_uri s1 = Some u"
    and "post a u
           (sign_request a (key a) (dicts s1 ! header) (dicts s1 ! protected_header)
              [(''resource'', PStr ''reg'')])
           None s1 = (Inr response, s2)"
  shows "get_registration a s =
     (if startswith (str_int (status_code response)) ''2'' then (json_of response, s2)
      else (Inl (AcmeError (OfResponse response)), s2))"
  using assms by (simp add: get_registration_def Let_def)

lemma update_registration_run:
  assumes "(case params0 of
              Some r \<Rightarrow> if dicts s ! r \<noteq> [] then (r, s) else alloc [] s
            | None \<Rightarrow> alloc [] s) = (params, s0)"
    and "get_headers a (setitem params ''resource'' (PStr ''reg'') s0)
           = (Inr (header, protected_header), s1)"
    and "account_uri s1 = Some u"
    and "post a u
           (sign_request a (key a) (dicts s1 ! header) (dicts s1 ! protected_header) (dicts s1 ! params))
           None s1 = (Inr response, s2)"
  shows "update_registration a params0 s =
     (if startswith (str_int (status_code response)) ''2'' then (Inr True, s2)
      else (Inl (AcmeError (OfResponse response)), s2))"
  using assms by (simp add: update_registration_def Let_def)

lemma new_authorization_run:
  assumes "get_headers a s = (Inr (header, protected_header), s1)"
    and "post a ''/acme/new-authz''
           (sign_request a (key a) (dicts s1 ! header) (dicts s1 ! protected_header)
              [(''resource'', PStr ''new-authz''),
               (''identifier'', PDict [(''type'', PStr ''dns''), (''value'', PStr domain)])])
           None s1 = (Inr response, s2)"
  shows "new_authorization a domain s =
     (if status_code response = 201
      then (case json_of response of
              Inl e \<Rightarrow> (Inl e, s2)
            | Inr contents \<Rightarrow>
                (Inr (NewAuthorizationResult contents (headers response ''Location'')), s2))
      else (Inl (AcmeError (OfResponse response)), s2))"
  using assms by (simp add: new_authorization_def Let_def)

lemma validate_authorization_run:
  assumes "get_headers a s = (Inr (header, protected_header), s1)"
    and "post a uri
           (sign_request a (key a) (dicts s1 ! header) (dicts s1 ! protected_header)
              [(''resource'', PStr ''challenge''), (''type'', PStr type'),
               (''keyAuthorization'', PStr key_authorization)])
           None s1 = (Inr response, s2)"
  shows "validate_authorization a uri type' key_authorization s =
     (if startswith (str_int (status_code response)) ''2'' then (Inr True, s2)
      else (Inl (AcmeError (OfResponse response)), s2))"
  using assms by (simp add: validate_authorization_def Let_def)

lemma get_authorization_run:
  assumes "get a uri None s = (Inr response, s1)"
  shows "get_authorization a uri s =
     (case json response of
        Inr v \<Rightarrow> (Inr v, s1)
      | Inl (OtherError m) \<Rightarrow> (Inl (Raised (OtherError m)), s1)
      | Inl e \<Rightarrow> (Inl (AcmeError (OfException e)), s1))"
  using assms by (simp add: get_authorization_def)

lemma issue_certificate_run:
  assumes "get_headers a s = (Inr (header, protected), s1)"
    and "post a ''/acme/new-cert''
           (sign_request a (key a) (dicts s1 ! header) (dicts s1 ! protected)
              [(''resource'', PStr ''new-cert''), (''csr'', PStr csr)])
           (Some [(''Accept'', ''application/pkix-cert'')]) s1 = (Inr response, s2)"
  shows "issue_certificate a csr s =
     (if status_code response = 201
      then (case get_link (headers response ''Link'') ''up'' of
              Inl e \<Rightarrow> (Inl (Raised e), s2)
            | Inr None \<Rightarrow>
                (Inr (IssuanceResult (content response) (headers response ''Location'') None), s2)
            | Inr (Some chain) \<Rightarrow>
                if chain \<noteq> []
                then (case invalid_url a chain of
                        Some e \<Rightarrow> (Inl (Raised e), s2)
                      | None \<Rightarrow>
                          (Inr (IssuanceResult (content response) (headers response ''Location'')
                                  (Some (content (transport a (sent s2)
                                           \<lparr>req_method = GET, req_url = chain,
                                              req_headers = DEFAULT_HEADERS a, req_data = None\<rparr>)))),
                           s2\<lparr>sent := sent s2 @ [\<lparr>req_method = GET, req_url = chain,
                                                    req_headers = DEFAULT_HEADERS a, req_data = None\<rparr>]\<rparr>))
                else (Inr (IssuanceResult (content response) (headers response ''Location'')
                             (Some chain)), s2))
      else (Inl (AcmeError (OfResponse response)), s2))"
  using assms
  by (auto simp: issue_certificate_def requests_get_def Let_def split: sum.splits option.splits)

lemma ex_path_new_authz: "path (ex_acme g r) ''/acme/new-authz'' = Inr ''https://ca.example/acme/new-authz''"
  by (simp add: url_defs ex_acme_def ex_lib_def)

lemma ex_path_new_cert: "path (ex_acme g r) ''/acme/new-cert'' = Inr ''https://ca.example/acme/new-cert''"
  by (simp add: url_defs ex_acme_def ex_lib_def)

lemma ex_path_reg: "path (ex_acme g r) ''https://ca.example/acme/reg/1'' = Inr ''https://ca.example/acme/reg/1''"
  by (simp add: url_defs ex_acme_def ex_lib_def)

lemma ex_path_challenge:
  "path (ex_acme g r) ''https://ca.example/acme/challenge/3'' = Inr ''https://ca.example/acme/challenge/3''"
  by (simp add: url_defs ex_acme_def ex_lib_def)


lemma ex_get:
  assumes "path (ex_acme g r) p = Inr u" and "invalid_url (ex_acme g r) u = None"
  shows "get (ex_acme g r) p None s = (Inr g, snd (get (ex_acme g r) p None s))"
proof -
  have "get (ex_acme g r) p None s =
       (Inr (transport (ex_acme g r) (sent s)
               \<lparr>req_method = GET, req_url = u, req_headers = DEFAULT_HEADERS (ex_acme g r),
                  req_data = None\<rparr>),
        s\<lparr>sent := sent s @ [\<lparr>req_method = GET, req_url = u,
                                  req_headers = DEFAULT_HEADERS (ex_acme g r), req_data = None\<rparr>]\<rparr>)"
    by (rule get_run [OF assms])
  then show ?thesis by (simp add: ex_acme_def)
qed


lemmas ex_new_authorization = new_authorization_run [OF ex_get_headers ex_post [OF ex_path_new_authz ex_url]]

lemmas ex_validate_authorization =
  validate_authorization_run [OF ex_get_headers ex_post [OF ex_path_challenge ex_url]]

lemmas ex_get_authorization = get_authorization_run [OF ex_get [OF ex_path_challenge ex_url]]

lemmas ex_issue_certificate = issue_certificate_run [OF ex_get_headers ex_post [OF ex_path_new_cert ex_url]]


section \<open>Issuance\<close>

text \<open>
  Claim C6, as amended. Let \<open>issue_certificate(csr)\<close> receive a response with status 201.
  When the link parser finds in the \<open>Link\<close> header an entry for \<open>up\<close> with a URL that is
  not empty and that \<open>requests\<close> accepts, one more \<open>GET\<close> is sent to that URL and
  \<open>intermediate\<close> is the body of its response. When no entry of the \<open>Link\<close> header
  contains \<open>up\<close>, \<open>intermediate\<close> is absent and nothing more is sent. In both cases
  \<open>certificate\<close> is the body of the response and \<open>location\<close> its \<open>Location\<close> header.
\<close>

theorem issue_certificate_created:
  assumes "get_headers a s = (Inr (header, protected), s1)"
    and "post a ''/acme/new-cert''
           (sign_request a (key a) (dicts s1 ! header) (dicts s1 ! protected)
              [(''resource'', PStr ''new-cert''), (''csr'', PStr csr)])
           (Some [(''Accept'', ''application/pkix-cert'')]) s1 = (Inr response, s2)"
    and "status_code response = 201"
  shows "(\<forall>chain. get_link (headers response ''Link'') ''up'' = Inr (Some chain) \<and> chain \<noteq> []
                  \<and> invalid_url a chain = None \<longrightarrow>
            issue_certificate a csr s =
              (Inr (IssuanceResult (content response) (headers response ''Location'')
                      (Some (content (transport a (sent s2)
                               \<lparr>req_method = GET, req_url = chain,
                                  req_headers = DEFAULT_HEADERS a, req_data = None\<rparr>)))),
               s2\<lparr>sent := sent s2 @ [\<lparr>req_method = GET, req_url = chain,
                                        req_headers = DEFAULT_HEADERS a, req_data = None\<rparr>]\<rparr>))
       \<and> (get_link (headers response ''Link'') ''up'' = Inr None \<longrightarrow>
            issue_certificate a csr s =
              (Inr (IssuanceResult (content response) (headers response ''Location'') None), s2))"
  using assms by (simp add: issue_certificate_run)

theorem issue_certificate_created_witness:
  "fst (issue_certificate
          (ex_acme ex_directory (ex_response 201 (Some ''<https://ca.example/issuer>;rel=up'') (Inr PNone)))
          ''CSR'' (ex_state []))
     = Inr (IssuanceResult ''BODY'' (Some ''https://ca.example/acme/new/7'') (Some ''ISSUER-DER''))
   \<and> length (sent (snd (issue_certificate
          (ex_acme ex_directory (ex_response 201 (Some ''<https://ca.example/issuer>;rel=up'') (Inr PNone)))
          ''CSR'' (ex_state [])))) = 3
   \<and> fst (issue_certificate (ex_acme ex_directory (ex_response 201 None (Inr PNone))) ''CSR'' (ex_state []))
     = Inr (IssuanceResult ''BODY'' (Some ''https://ca.example/acme/new/7'') None)
   \<and> length (sent (snd (issue_certificate (ex_acme ex_directory (ex_response 201 None (Inr PNone)))
                            ''CSR'' (ex_state [])))) = 2"
proof -
  let ?r = "ex_response 201 (Some ''<https://ca.example/issuer>;rel=up'') (Inr PNone)"
  let ?q = "ex_response 201 None (Inr PNone)"
  have r: "status_code ?r = 201" "content ?r = ''BODY''"
      "headers ?r ''Location'' = Some ''https://ca.example/acme/new/7''"
      "get_link (headers ?r ''Link'') ''up'' = Inr (Some ''https://ca.example/issuer'')"
    and q: "status_code ?q = 201" "content ?q = ''BODY''"
      "headers ?q ''Location'' = Some ''https://ca.example/acme/new/7''"
      "get_link (headers ?q ''Link'') ''up'' = Inr None"
    by (simp_all add: ex_response_def get_link_def strip_def py_isspace_def str_find_def)
  have t: "transport (ex_acme ex_directory x) h
             \<lparr>req_method = GET, req_url = u, req_headers = hs, req_data = None\<rparr> = ex_directory"
    for x h u hs by (simp add: ex_acme_def)
  have n: "length (sent (snd (post (ex_acme g x) ''/acme/new-cert'' b hd
             (snd (get_headers (ex_acme g x) (ex_state []))))))= 2" for g x b hd
    using post_ok [OF ex_path_new_cert ex_url, of g x b hd "snd (get_headers (ex_acme g x) (ex_state []))"]
    by (auto simp: get_headers_run [OF ex_path_directory ex_url] ex_state_def)
  have c: "content ex_directory = ''ISSUER-DER''"
    by (simp add: ex_directory_def)
  show ?thesis
    using issue_certificate_created
            [OF ex_get_headers [of ex_directory ?r "ex_state []"] ex_post [OF ex_path_new_cert ex_url] r(1)]
          issue_certificate_created
            [OF ex_get_headers [of ex_directory ?q "ex_state []"] ex_post [OF ex_path_new_cert ex_url] q(1)]
    by (simp add: r q t n c ex_url)
qed

text \<open>
  Claim C6 as stated fails on a \<open>Link\<close> header whose \<open>up\<close> entry has an empty URL:
  \<open>if chain:\<close> is false for the empty string, so nothing is fetched (two requests are
  sent, the nonce and the \<open>POST\<close>) and \<open>intermediate\<close> is the empty string, which is
  neither absent nor fetched.
\<close>

theorem issue_certificate_counterexample:
  "status_code (ex_response 201 (Some ''<>;rel=up'') (Inr PNone)) = 201
   \<and> get_link (headers (ex_response 201 (Some ''<>;rel=up'') (Inr PNone)) ''Link'') ''up'' = Inr (Some '''')
   \<and> fst (issue_certificate (ex_acme ex_directory (ex_response 201 (Some ''<>;rel=up'') (Inr PNone)))
            ''CSR'' (ex_state []))
       = Inr (IssuanceResult ''BODY'' (Some ''https://ca.example/acme/new/7'') (Some ''''))
   \<and> length (sent (snd (issue_certificate
                           (ex_acme ex_directory (ex_response 201 (Some ''<>;rel=up'') (Inr PNone)))
                           ''CSR'' (ex_state [])))) = 2"
proof -
  let ?r = "ex_response 201 (Some ''<>;rel=up'') (Inr PNone)"
  have r: "status_code ?r = 201" "content ?r = ''BODY''"
      "headers ?r ''Location'' = Some ''https://ca.example/acme/new/7''"
      "get_link (headers ?r ''Link'') ''up'' = Inr (Some '''')"
    by (simp_all add: ex_response_def get_link_def strip_def py_isspace_def str_find_def)
  have n: "length (sent (snd (post (ex_acme g x) ''/acme/new-cert'' b hd
             (snd (get_headers (ex_acme g x) (ex_state []))))))= 2" for g x b hd
    using post_ok [OF ex_path_new_cert ex_url, of g x b hd "snd (get_headers (ex_acme g x) (ex_state []))"]
    by (auto simp: get_headers_run [OF ex_path_directory ex_url] ex_state_def)
  show ?thesis
    by (simp add: ex_issue_certificate r n)
qed

text \<open>
  When \<open>requests\<close> refuses the URL that the link parser returned, \<open>issue_certificate\<close>
  raises the exception of \<open>requests.get\<close> and sends nothing more. So it is on the example
  client for the header \<open>rel=up; <https://ca.example/issuer>\<close>, where the parser returns
  \<open>el=up; <https://ca.example/issuer\<close>.
\<close>

lemma issue_certificate_refused:
  assumes "get_headers a s = (Inr (header, protected), s1)"
    and "post a ''/acme/new-cert''
           (sign_request a (key a) (dicts s1 ! header) (dicts s1 ! protected)
              [(''resource'', PStr ''new-cert''), (''csr'', PStr csr)])
           (Some [(''Accept'', ''application/pkix-cert'')]) s1 = (Inr response, s2)"
    and "status_code response = 201"
    and "get_link (headers response ''Link'') ''up'' = Inr (Some chain)"
    and "chain \<noteq> []"
    and "invalid_url a chain = Some e"
  shows "issue_certificate a csr s = (Inl (Raised e), s2)"
  using assms by (simp add: issue_certificate_run)

lemma issue_certificate_refused_example:
  "fst (issue_certificate
          (ex_acme ex_directory (ex_response 201 (Some ''rel=up; <https://ca.example/issuer>'') (Inr PNone)))
          ''CSR'' (ex_state []))
     = Inl (Raised (ValueError ''No connection adapters were found''))
   \<and> length (sent (snd (issue_certificate
          (ex_acme ex_directory (ex_response 201 (Some ''rel=up; <https://ca.example/issuer>'') (Inr PNone)))
          ''CSR'' (ex_state [])))) = 2"
proof -
  let ?r = "ex_response 201 (Some ''rel=up; <https://ca.example/issuer>'') (Inr PNone)"
  have r: "status_code ?r = 201"
      "get_link (headers ?r ''Link'') ''up'' = Inr (Some ''el=up; <https://ca.example/issuer'')"
    by (simp_all add: ex_response_def get_link_def strip_def py_isspace_def str_find_def)
  have i: "invalid_url (ex_acme g x) ''el=up; <https://ca.example/issuer''
             = Some (ValueError ''No connection adapters were found'')" for g x
    by (simp add: ex_acme_def)
  have n: "length (sent (snd (post (ex_acme g x) ''/acme/new-cert'' b hd
             (snd (get_headers (ex_acme g x) (ex_state []))))))= 2" for g x b hd
    using post_ok [OF ex_path_new_cert ex_url, of g x b hd "snd (get_headers (ex_acme g x) (ex_state []))"]
    by (auto simp: get_headers_run [OF ex_path_directory ex_url] ex_state_def)
  show ?thesis
    using issue_certificate_refused
            [OF ex_get_headers [of ex_directory ?r "ex_state []"] ex_post [OF ex_path_new_cert ex_url] r(1) r(2) _ i]
    by (simp add: n)
qed

section \<open>Bodies that are not JSON\<close>




section \<open>Status codes\<close>







section \<open>The header builder\<close>

lemma get_headers_result:
  assumes "path a ''/directory'' = Inr d" and "invalid_url a d = None"
  shows "fst (get_headers a s) = Inr (length (dicts s), Suc (length (dicts s)))"
    and "account_uri (snd (get_headers a s)) = account_uri s"
    and "dicts (snd (get_headers a s)) =
           dicts s @ [generate_header a (key a),
              AList.update ''nonce''
                (case headers (transport a (sent s)
                        \<lparr>req_method = GET, req_url = d, req_headers = DEFAULT_HEADERS a, req_data = None\<rparr>)
                      ''Replay-Nonce'' of None \<Rightarrow> PNone | Some n \<Rightarrow> PStr n)
                (generate_header a (key a))]"
    and "sent (snd (get_headers a s)) =
           sent s @ [\<lparr>req_method = GET, req_url = d, req_headers = DEFAULT_HEADERS a, req_data = None\<rparr>]"
  by (simp_all add: get_headers_run [OF assms])

lemma post_result:
  assumes "path a p = Inr u" and "invalid_url a u = None"
  shows "\<exists>hs. post a p body hdrs s =
            (Inr (transport a (sent s)
                    \<lparr>req_method = POST, req_url = u, req_headers = hs, req_data = Some body\<rparr>),
             snd (post a p body hdrs s))
          \<and> sent (snd (post a p body hdrs s)) =
              sent s @ [\<lparr>req_method = POST, req_url = u, req_headers = hs, req_data = Some body\<rparr>]"
  using post_ok [OF assms, of body hdrs s] by auto

lemma register_sent:
  assumes "get_headers a s = (Inr (header, protected_header), s1)"
    and "path a ''/acme/new-reg'' = Inr u"
    and "invalid_url a u = None"
  shows "\<exists>hs. sent (snd (register a email s)) =
           sent s1 @ [\<lparr>req_method = POST, req_url = u, req_headers = hs,
                        req_data = Some (sign_request a (key a) (dicts s1 ! header) (dicts s1 ! protected_header)
                          [(''resource'', PStr ''new-reg''),
                           (''contact'', PList [PStr (''mailto:'' @ email)])])\<rparr>]"
proof -
  let ?b = "sign_request a (key a) (dicts s1 ! header) (dicts s1 ! protected_header)
              [(''resource'', PStr ''new-reg''), (''contact'', PList [PStr (''mailto:'' @ email)])]"
  from post_result [OF assms(2) assms(3), of ?b None s1] obtain hs where
    po: "post a ''/acme/new-reg'' ?b None s1 =
           (Inr (transport a (sent s1)
                   \<lparr>req_method = POST, req_url = u, req_headers = hs, req_data = Some ?b\<rparr>),
            snd (post a ''/acme/new-reg'' ?b None s1))"
    and se: "sent (snd (post a ''/acme/new-reg'' ?b None s1)) =
           sent s1 @ [\<lparr>req_method = POST, req_url = u, req_headers = hs, req_data = Some ?b\<rparr>]"
    by blast
  have "sent (snd (register a email s)) = sent (snd (post a ''/acme/new-reg'' ?b None s1))"
    by (simp add: register_run [OF assms(1) po] split: sum.splits)
  with se show ?thesis by auto
qed

lemma new_authorization_sent:
  assumes "get_headers a s = (Inr (header, protected_header), s1)"
    and "path a ''/acme/new-authz'' = Inr u"
    and "invalid_url a u = None"
  shows "\<exists>hs. sent (snd (new_authorization a domain s)) =
           sent s1 @ [\<lparr>req_method = POST, req_url = u, req_headers = hs,
                        req_data = Some (sign_request a (key a) (dicts s1 ! header) (dicts s1 ! protected_header)
                          [(''resource'', PStr ''new-authz''),
                           (''identifier'', PDict [(''type'', PStr ''dns''), (''value'', PStr domain)])])\<rparr>]"
proof -
  let ?b = "sign_request a (key a) (dicts s1 ! header) (dicts s1 ! protected_header)
              [(''resource'', PStr ''new-authz''),
               (''identifier'', PDict [(''type'', PStr ''dns''), (''value'', PStr domain)])]"
  from post_result [OF assms(2) assms(3), of ?b None s1] obtain hs where
    po: "post a ''/acme/new-authz'' ?b None s1 =
           (Inr (transport a (sent s1)
                   \<lparr>req_method = POST, req_url = u, req_headers = hs, req_data = Some ?b\<rparr>),
            snd (post a ''/acme/new-authz'' ?b None s1))"
    and se: "sent (snd (post a ''/acme/new-authz'' ?b None s1)) =
           sent s1 @ [\<lparr>req_method = POST, req_url = u, req_headers = hs, req_data = Some ?b\<rparr>]"
    by blast
  have "sent (snd (new_authorization a domain s)) = sent (snd (post a ''/acme/new-authz'' ?b None s1))"
    by (simp add: new_authorization_run [OF assms(1) po] split: sum.splits)
  with se show ?thesis by auto
qed

lemma validate_authorization_sent:
  assumes "get_headers a s = (Inr (header, protected_header), s1)"
    and "path a uri = Inr u"
    and "invalid_url a u = None"
  shows "\<exists>hs. sent (snd (validate_authorization a uri type' key_authorization s)) =
           sent s1 @ [\<lparr>req_method = POST, req_url = u, req_headers = hs,
                        req_data = Some (sign_request a (key a) (dicts s1 ! header) (dicts s1 ! protected_header)
                          [(''resource'', PStr ''challenge''), (''type'', PStr type'),
                           (''keyAuthorization'', PStr key_authorization)])\<rparr>]"
proof -
  let ?b = "sign_request a (key a) (dicts s1 ! header) (dicts s1 ! protected_header)
              [(''resource'', PStr ''challenge''), (''type'', PStr type'),
               (''keyAuthorization'', PStr key_authorization)]"
  from post_result [OF assms(2) assms(3), of ?b None s1] obtain hs where
    po: "post a uri ?b None s1 =
           (Inr (transport a (sent s1)
                   \<lparr>req_method = POST, req_url = u, req_headers = hs, req_data = Some ?b\<rparr>),
            snd (post a uri ?b None s1))"
    and se: "sent (snd (post a uri ?b None s1)) =
           sent s1 @ [\<lparr>req_method = POST, req_url = u, req_headers = hs, req_data = Some ?b\<rparr>]"
    by blast
  have "sent (snd (validate_authorization a uri type' key_authorization s)) = sent (snd (post a uri ?b None s1))"
    by (simp add: validate_authorization_run [OF assms(1) po])
  with se show ?thesis by auto
qed

lemma get_registration_sent:
  assumes "get_headers a s = (Inr (header, protected_header), s1)"
    and "account_uri s1 = Some t"
    and "path a t = Inr u"
    and "invalid_url a u = None"
  shows "\<exists>hs. sent (snd (get_registration a s)) =
           sent s1 @ [\<lparr>req_method = POST, req_url = u, req_headers = hs,
                        req_data = Some (sign_request a (key a) (dicts s1 ! header) (dicts s1 ! protected_header)
                          [(''resource'', PStr ''reg'')])\<rparr>]"
proof -
  let ?b = "sign_request a (key a) (dicts s1 ! header) (dicts s1 ! protected_header)
              [(''resource'', PStr ''reg'')]"
  from post_result [OF assms(3) assms(4), of ?b None s1] obtain hs where
    po: "post a t ?b None s1 =
           (Inr (transport a (sent s1)
                   \<lparr>req_method = POST, req_url = u, req_headers = hs, req_data = Some ?b\<rparr>),
            snd (post a t ?b None s1))"
    and se: "sent (snd (post a t ?b None s1)) =
           sent s1 @ [\<lparr>req_method = POST, req_url = u, req_headers = hs, req_data = Some ?b\<rparr>]"
    by blast
  have "sent (snd (get_registration a s)) = sent (snd (post a t ?b None s1))"
    by (simp add: get_registration_run [OF assms(1) assms(2) po])
  with se show ?thesis by auto
qed

lemma issue_certificate_sent:
  assumes "get_headers a s = (Inr (header, protected), s1)"
    and "path a ''/acme/new-cert'' = Inr u"
    and "invalid_url a u = None"
  shows "\<exists>hs rest. sent (snd (issue_certificate a csr s)) =
           sent s1 @ [\<lparr>req_method = POST, req_url = u, req_headers = hs,
                        req_data = Some (sign_request a (key a) (dicts s1 ! header) (dicts s1 ! protected)
                          [(''resource'', PStr ''new-cert''), (''csr'', PStr csr)])\<rparr>] @ rest"
proof -
  let ?b = "sign_request a (key a) (dicts s1 ! header) (dicts s1 ! protected)
              [(''resource'', PStr ''new-cert''), (''csr'', PStr csr)]"
  let ?h = "Some [(''Accept'', ''application/pkix-cert'')]"
  from post_result [OF assms(2) assms(3), of ?b ?h s1] obtain hs where
    po: "post a ''/acme/new-cert'' ?b ?h s1 =
           (Inr (transport a (sent s1)
                   \<lparr>req_method = POST, req_url = u, req_headers = hs, req_data = Some ?b\<rparr>),
            snd (post a ''/acme/new-cert'' ?b ?h s1))"
    and se: "sent (snd (post a ''/acme/new-cert'' ?b ?h s1)) =
           sent s1 @ [\<lparr>req_method = POST, req_url = u, req_headers = hs, req_data = Some ?b\<rparr>]"
    by blast
  have "\<exists>rest. sent (snd (issue_certificate a csr s))
          = sent (snd (post a ''/acme/new-cert'' ?b ?h s1)) @ rest"
    by (simp add: issue_certificate_run [OF assms(1) po] split: sum.splits option.splits)
  with se show ?thesis by auto
qed

lemma update_absent: "k \<notin> fst ` set al \<Longrightarrow> AList.update k v al = al @ [(k, v)]"
  by (induction al) auto

text \<open>
  Claim C9. When the directory URL resolves to a URL that \<open>requests\<close> accepts,
  \<open>get_headers\<close> sends one \<open>GET\<close> to it and returns two distinct references: \<open>header\<close> holds what \<open>generate_header\<close> made, untouched,
  and \<open>protected_header\<close> holds a copy of it with the entry \<open>nonce\<close> set to the
  \<open>Replay-Nonce\<close> header of the response, or to \<open>None\<close> when the response has no such
  header; the copy differs from \<open>header\<close> in that entry only, which is one more entry when
  \<open>generate_header\<close> makes none of that name. A missing nonce is no local failure:
  \<open>register\<close>, \<open>get_registration\<close>, \<open>new_authorization\<close>, \<open>validate_authorization\<close> and
  \<open>issue_certificate\<close> go on to sign the payload with these headers and send the \<open>POST\<close>
  (to the URL their path resolves to, when \<open>requests\<close> accepts it).
\<close>

theorem get_headers_nonce:
  fixes a :: "'k acme" and s :: state and d :: string
  defines "directory_get \<equiv>
             \<lparr>req_method = GET, req_url = d, req_headers = DEFAULT_HEADERS a, req_data = None\<rparr>"
  defines "nonce \<equiv> (case headers (transport a (sent s) directory_get) ''Replay-Nonce'' of
                      None \<Rightarrow> PNone | Some n \<Rightarrow> PStr n)"
  defines "header \<equiv> length (dicts s)" and "protected_header \<equiv> Suc (length (dicts s))"
  defines "s1 \<equiv> snd (get_headers a s)"
  assumes "path a ''/directory'' = Inr d" and "invalid_url a d = None"
  shows "get_headers a s = (Inr (header, protected_header), s1)
       \<and> header \<noteq> protected_header
       \<and> dicts s1 ! header = generate_header a (key a)
       \<and> dicts s1 ! protected_header = AList.update ''nonce'' nonce (dicts s1 ! header)
       \<and> map_of (dicts s1 ! protected_header) = (map_of (dicts s1 ! header))(''nonce'' \<mapsto> nonce)
       \<and> (''nonce'' \<notin> fst ` set (generate_header a (key a)) \<longrightarrow>
            ''nonce'' \<notin> fst ` set (dicts s1 ! header)
            \<and> dicts s1 ! protected_header = dicts s1 ! header @ [(''nonce'', nonce)])
       \<and> sent s1 = sent s @ [directory_get]
       \<and> (headers (transport a (sent s) directory_get) ''Replay-Nonce'' = None \<longrightarrow>
            map_of (dicts s1 ! protected_header) ''nonce'' = Some PNone)
       \<and> (\<forall>u email. path a ''/acme/new-reg'' = Inr u \<and> invalid_url a u = None \<longrightarrow>
            (\<exists>hs. sent (snd (register a email s)) =
               sent s1 @ [\<lparr>req_method = POST, req_url = u, req_headers = hs,
                   req_data = Some (sign_request a (key a) (dicts s1 ! header) (dicts s1 ! protected_header)
                     [(''resource'', PStr ''new-reg''),
                      (''contact'', PList [PStr (''mailto:'' @ email)])])\<rparr>]))
       \<and> (\<forall>t u. account_uri s = Some t \<and> path a t = Inr u \<and> invalid_url a u = None \<longrightarrow>
            (\<exists>hs. sent (snd (get_registration a s)) =
               sent s1 @ [\<lparr>req_method = POST, req_url = u, req_headers = hs,
                   req_data = Some (sign_request a (key a) (dicts s1 ! header) (dicts s1 ! protected_header)
                     [(''resource'', PStr ''reg'')])\<rparr>]))
       \<and> (\<forall>u domain. path a ''/acme/new-authz'' = Inr u \<and> invalid_url a u = None \<longrightarrow>
            (\<exists>hs. sent (snd (new_authorization a domain s)) =
               sent s1 @ [\<lparr>req_method = POST, req_url = u, req_headers = hs,
                   req_data = Some (sign_request a (key a) (dicts s1 ! header) (dicts s1 ! protected_header)
                     [(''resource'', PStr ''new-authz''),
                      (''identifier'', PDict [(''type'', PStr ''dns''), (''value'', PStr domain)])])\<rparr>]))
       \<and> (\<forall>uri u type' key_authorization. path a uri = Inr u \<and> invalid_url a u = None \<longrightarrow>
            (\<exists>hs. sent (snd (validate_authorization a uri type' key_authorization s)) =
               sent s1 @ [\<lparr>req_method = POST, req_url = u, req_headers = hs,
                   req_data = Some (sign_request a (key a) (dicts s1 ! header) (dicts s1 ! protected_header)
                     [(''resource'', PStr ''challenge''), (''type'', PStr type'),
                      (''keyAuthorization'', PStr key_authorization)])\<rparr>]))
       \<and> (\<forall>u csr. path a ''/acme/new-cert'' = Inr u \<and> invalid_url a u = None \<longrightarrow>
            (\<exists>hs rest. sent (snd (issue_certificate a csr s)) =
               sent s1 @ [\<lparr>req_method = POST, req_url = u, req_headers = hs,
                   req_data = Some (sign_request a (key a) (dicts s1 ! header) (dicts s1 ! protected_header)
                     [(''resource'', PStr ''new-cert''), (''csr'', PStr csr)])\<rparr>] @ rest))"
proof -
  note r = get_headers_result [OF assms(6) assms(7), of s]
  have hd: "get_headers a s = (Inr (header, protected_header), s1)"
    using r(1) by (simp add: header_def protected_header_def s1_def prod_eq_iff)
  have h: "dicts s1 ! header = generate_header a (key a)"
    and p: "dicts s1 ! protected_header = AList.update ''nonce'' nonce (generate_header a (key a))"
    and se: "sent s1 = sent s @ [directory_get]"
    and au: "account_uri s1 = account_uri s"
    using r(2-4)
    by (simp_all add: header_def protected_header_def s1_def nonce_def directory_get_def nth_append)
  have ne: "header \<noteq> protected_header"
    by (simp add: header_def protected_header_def)
  have p': "dicts s1 ! protected_header = AList.update ''nonce'' nonce (dicts s1 ! header)"
    by (simp add: h p)
  have m: "map_of (dicts s1 ! protected_header) = (map_of (dicts s1 ! header))(''nonce'' \<mapsto> nonce)"
    by (simp add: h p AList.update_conv')
  have ab: "''nonce'' \<notin> fst ` set (generate_header a (key a)) \<longrightarrow>
            ''nonce'' \<notin> fst ` set (dicts s1 ! header)
            \<and> dicts s1 ! protected_header = dicts s1 ! header @ [(''nonce'', nonce)]"
    by (simp add: h p update_absent)
  have no: "headers (transport a (sent s) directory_get) ''Replay-Nonce'' = None \<longrightarrow>
            map_of (dicts s1 ! protected_header) ''nonce'' = Some PNone"
    by (simp add: p AList.update_conv' nonce_def)
  have rg: "\<forall>u email. path a ''/acme/new-reg'' = Inr u \<and> invalid_url a u = None \<longrightarrow>
            (\<exists>hs. sent (snd (register a email s)) =
               sent s1 @ [\<lparr>req_method = POST, req_url = u, req_headers = hs,
                   req_data = Some (sign_request a (key a) (dicts s1 ! header) (dicts s1 ! protected_header)
                     [(''resource'', PStr ''new-reg''),
                      (''contact'', PList [PStr (''mailto:'' @ email)])])\<rparr>])"
    using register_sent [OF hd] by blast
  have gr: "\<forall>t u. account_uri s = Some t \<and> path a t = Inr u \<and> invalid_url a u = None \<longrightarrow>
            (\<exists>hs. sent (snd (get_registration a s)) =
               sent s1 @ [\<lparr>req_method = POST, req_url = u, req_headers = hs,
                   req_data = Some (sign_request a (key a) (dicts s1 ! header) (dicts s1 ! protected_header)
                     [(''resource'', PStr ''reg'')])\<rparr>])"
    using get_registration_sent [OF hd] au by auto
  have na: "\<forall>u domain. path a ''/acme/new-authz'' = Inr u \<and> invalid_url a u = None \<longrightarrow>
            (\<exists>hs. sent (snd (new_authorization a domain s)) =
               sent s1 @ [\<lparr>req_method = POST, req_url = u, req_headers = hs,
                   req_data = Some (sign_request a (key a) (dicts s1 ! header) (dicts s1 ! protected_header)
                     [(''resource'', PStr ''new-authz''),
                      (''identifier'', PDict [(''type'', PStr ''dns''), (''value'', PStr domain)])])\<rparr>])"
    using new_authorization_sent [OF hd] by blast
  have va: "\<forall>uri u type' key_authorization. path a uri = Inr u \<and> invalid_url a u = None \<longrightarrow>
            (\<exists>hs. sent (snd (validate_authorization a uri type' key_authorization s)) =
               sent s1 @ [\<lparr>req_method = POST, req_url = u, req_headers = hs,
                   req_data = Some (sign_request a (key a) (dicts s1 ! header) (dicts s1 ! protected_header)
                     [(''resource'', PStr ''challenge''), (''type'', PStr type'),
                      (''keyAuthorization'', PStr key_authorization)])\<rparr>])"
    using validate_authorization_sent [OF hd] by blast
  have ic: "\<forall>u csr. path a ''/acme/new-cert'' = Inr u \<and> invalid_url a u = None \<longrightarrow>
            (\<exists>hs rest. sent (snd (issue_certificate a csr s)) =
               sent s1 @ [\<lparr>req_method = POST, req_url = u, req_headers = hs,
                   req_data = Some (sign_request a (key a) (dicts s1 ! header) (dicts s1 ! protected_header)
                     [(''resource'', PStr ''new-cert''), (''csr'', PStr csr)])\<rparr>] @ rest)"
    using issue_certificate_sent [OF hd] by blast
  from hd ne h p' m ab se no rg gr na va ic show ?thesis
    by (intro conjI)
qed

theorem get_headers_nonce_witness:
  "fst (get_headers (ex_acme ex_directory ex_directory) (ex_state [])) = Inr (0, 1)
   \<and> dicts (snd (get_headers (ex_acme ex_directory ex_directory) (ex_state []))) ! 0
       = [(''alg'', PStr ''RS256'')]
   \<and> dicts (snd (get_headers (ex_acme ex_directory ex_directory) (ex_state []))) ! 1
       = [(''alg'', PStr ''RS256''), (''nonce'', PStr ''nonce-1'')]
   \<and> fst (get_headers (ex_acme (ex_response 200 None (Inr PNone)) ex_directory) (ex_state [])) = Inr (0, 1)
   \<and> dicts (snd (get_headers (ex_acme (ex_response 200 None (Inr PNone)) ex_directory) (ex_state []))) ! 1
       = [(''alg'', PStr ''RS256''), (''nonce'', PNone)]
   \<and> length (sent (snd (register (ex_acme (ex_response 200 None (Inr PNone)) ex_directory)
                            ''admin@example.org'' (ex_state [])))) = 2"
proof -
  have g: "generate_header (ex_acme x y) k = [(''alg'', PStr ''RS256'')]" for x y k
    by (simp add: ex_acme_def)
  have tr: "transport (ex_acme x y) h
              \<lparr>req_method = GET, req_url = u, req_headers = hs, req_data = None\<rparr> = x" for x y h u hs
    by (simp add: ex_acme_def)
  have n: "headers ex_directory ''Replay-Nonce'' = Some ''nonce-1''"
      "headers (ex_response 200 None (Inr PNone)) ''Replay-Nonce'' = None"
    by (simp_all add: ex_directory_def ex_response_def)
  have e: "dicts (ex_state []) = []" "sent (ex_state []) = []"
    by (simp_all add: ex_state_def)
  note t1 = get_headers_nonce [OF ex_path_directory [of ex_directory ex_directory] ex_url,
              where s = "ex_state []"]
  note t2 = get_headers_nonce [OF ex_path_directory [of "ex_response 200 None (Inr PNone)" ex_directory] ex_url,
              where s = "ex_state []"]
  have 1: "fst (get_headers (ex_acme ex_directory ex_directory) (ex_state [])) = Inr (0, 1)"
    using t1 [THEN conjunct1] by (simp add: e prod_eq_iff)
  have 2: "dicts (snd (get_headers (ex_acme ex_directory ex_directory) (ex_state []))) ! 0
             = [(''alg'', PStr ''RS256'')]"
    using t1 [THEN conjunct2, THEN conjunct2, THEN conjunct1] by (simp add: e g)
  have 3: "dicts (snd (get_headers (ex_acme ex_directory ex_directory) (ex_state []))) ! 1
             = [(''alg'', PStr ''RS256''), (''nonce'', PStr ''nonce-1'')]"
    using t1 [THEN conjunct2, THEN conjunct2, THEN conjunct2, THEN conjunct1] 2
    by (simp add: e tr n)
  have 4: "fst (get_headers (ex_acme (ex_response 200 None (Inr PNone)) ex_directory) (ex_state [])) = Inr (0, 1)"
    using t2 [THEN conjunct1] by (simp add: e prod_eq_iff)
  have 5: "dicts (snd (get_headers (ex_acme (ex_response 200 None (Inr PNone)) ex_directory) (ex_state []))) ! 1
             = [(''alg'', PStr ''RS256''), (''nonce'', PNone)]"
    using t2 [THEN conjunct2, THEN conjunct2, THEN conjunct1]
          t2 [THEN conjunct2, THEN conjunct2, THEN conjunct2, THEN conjunct1]
    by (simp add: e tr n g)
  have 6: "length (sent (snd (register (ex_acme (ex_response 200 None (Inr PNone)) ex_directory)
                            ''admin@example.org'' (ex_state [])))) = 2"
    using t2 [THEN conjunct2, THEN conjunct2, THEN conjunct2, THEN conjunct2, THEN conjunct2, THEN conjunct2,
              THEN conjunct1]
          t2 [THEN conjunct2, THEN conjunct2, THEN conjunct2, THEN conjunct2, THEN conjunct2, THEN conjunct2,
              THEN conjunct2, THEN conjunct2, THEN conjunct1, rule_format,
              OF conjI [OF ex_path_new_reg ex_url], of "''admin@example.org''"]
    by (auto simp: e)
  from 1 2 3 4 5 6 show ?thesis by (intro conjI)
qed

section \<open>The caller's dictionary in \<open>update_registration\<close>\<close>

lemma update_registration_dicts:
  assumes "r < length (dicts s)" and "dicts s ! r \<noteq> []"
  shows "dicts (snd (update_registration a (Some r) s)) ! r
           = AList.update ''resource'' (PStr ''reg'') (dicts s ! r)"
proof -
  let ?s0 = "setitem r ''resource'' (PStr ''reg'') s"
  have l: "r < length (dicts ?s0)"
    and v: "dicts ?s0 ! r = AList.update ''resource'' (PStr ''reg'') (dicts s ! r)"
    using assms(1) by (simp_all add: setitem_def)
  have f: "dicts (snd (get_headers a ?s0)) ! r = dicts ?s0 ! r"
    using get_headers_frame [of a ?s0 "fst (get_headers a ?s0)" "snd (get_headers a ?s0)"] l
    by simp
  have p: "dicts (snd (post a u b h s')) = dicts s'" for u b h s'
    using post_frame [of a u b h s' "fst (post a u b h s')" "snd (post a u b h s')"] by simp
  have "dicts (snd (update_registration a (Some r) s)) ! r = dicts (snd (get_headers a ?s0)) ! r"
    using assms(2)
    by (cases "get_headers a ?s0")
       (auto simp: update_registration_def Let_def p split: sum.splits option.splits prod.splits
             dest: arg_cong [where f = "\<lambda>x. dicts (snd x)"])
  with f v show ?thesis by simp
qed

lemma update_registration_sent:
  assumes "r < length (dicts s)" and "dicts s ! r \<noteq> []"
    and "path a ''/directory'' = Inr d" and "invalid_url a d = None"
    and "account_uri s = Some t" and "path a t = Inr u" and "invalid_url a u = None"
  shows "\<exists>hs nonce. sent (snd (update_registration a (Some r) s)) =
           sent s @ [\<lparr>req_method = GET, req_url = d, req_headers = DEFAULT_HEADERS a, req_data = None\<rparr>,
                     \<lparr>req_method = POST, req_url = u, req_headers = hs,
                        req_data = Some (sign_request a (key a) (generate_header a (key a))
                          (AList.update ''nonce'' nonce (generate_header a (key a)))
                          (AList.update ''resource'' (PStr ''reg'') (dicts s ! r)))\<rparr>]"
proof -
  let ?s0 = "setitem r ''resource'' (PStr ''reg'') s"
  let ?s1 = "snd (get_headers a ?s0)"
  let ?n = "length (dicts ?s0)"
  note g = get_headers_result [OF assms(3) assms(4), of ?s0]
  have c: "(case Some r of
              Some r \<Rightarrow> if dicts s ! r \<noteq> [] then (r, s) else alloc [] s
            | None \<Rightarrow> alloc [] s) = (r, s)"
    using assms(2) by simp
  have hd: "get_headers a ?s0 = (Inr (?n, Suc ?n), ?s1)"
    using g(1) by (simp add: prod_eq_iff)
  have au: "account_uri ?s1 = Some t"
    using g(2) assms(5) by (simp add: setitem_def)
  let ?b = "sign_request a (key a) (dicts ?s1 ! ?n) (dicts ?s1 ! Suc ?n) (dicts ?s1 ! r)"
  from post_result [OF assms(6) assms(7), of ?b None ?s1] obtain hs where
    po: "post a t ?b None ?s1 =
           (Inr (transport a (sent ?s1)
                   \<lparr>req_method = POST, req_url = u, req_headers = hs, req_data = Some ?b\<rparr>),
            snd (post a t ?b None ?s1))"
    and se: "sent (snd (post a t ?b None ?s1)) =
           sent ?s1 @ [\<lparr>req_method = POST, req_url = u, req_headers = hs, req_data = Some ?b\<rparr>]"
    by blast
  have "sent (snd (update_registration a (Some r) s)) = sent (snd (post a t ?b None ?s1))"
    by (simp add: update_registration_run [OF c hd au po])
  moreover have "sent ?s1 = sent s @ [\<lparr>req_method = GET, req_url = d,
                                       req_headers = DEFAULT_HEADERS a, req_data = None\<rparr>]"
    using g(4) by (simp add: setitem_def)
  moreover have "dicts ?s1 ! ?n = generate_header a (key a)"
    using g(3) by (simp add: nth_append)
  moreover have "dicts ?s1 ! Suc ?n =
      AList.update ''nonce''
        (case headers (transport a (sent ?s0)
                \<lparr>req_method = GET, req_url = d, req_headers = DEFAULT_HEADERS a, req_data = None\<rparr>)
              ''Replay-Nonce'' of None \<Rightarrow> PNone | Some n \<Rightarrow> PStr n)
        (generate_header a (key a))"
    using g(3) by (simp add: nth_append)
  moreover have "dicts ?s1 ! r = AList.update ''resource'' (PStr ''reg'') (dicts s ! r)"
    using g(3) assms(1) by (simp add: nth_append setitem_def)
  ultimately show ?thesis
    using se by auto
qed

text \<open>
  Claim C10, as amended. For every reference to a dictionary that is not empty, passed as
  \<open>params\<close>, \<open>update_registration\<close> writes \<open>'resource': 'reg'\<close> into that very dictionary
  before it signs: after the call, however it ends, the caller's dictionary is the
  original with the key \<open>resource\<close> added or overwritten, and that is what was signed and
  posted (when the two URLs resolve and \<open>requests\<close> accepts them). The dictionary differs from the original unless it already held
  \<open>'resource': 'reg'\<close>.
\<close>

theorem update_registration_mutates_params:
  assumes "r < length (dicts s)" and "dicts s ! r \<noteq> []"
  shows "dicts (snd (update_registration a (Some r) s)) ! r
           = AList.update ''resource'' (PStr ''reg'') (dicts s ! r)
       \<and> map_of (dicts (snd (update_registration a (Some r) s)) ! r)
           = (map_of (dicts s ! r))(''resource'' \<mapsto> PStr ''reg'')
       \<and> (map_of (dicts s ! r) ''resource'' \<noteq> Some (PStr ''reg'') \<longrightarrow>
            dicts (snd (update_registration a (Some r) s)) ! r \<noteq> dicts s ! r)
       \<and> (\<forall>d t u. path a ''/directory'' = Inr d \<and> invalid_url a d = None
                  \<and> account_uri s = Some t \<and> path a t = Inr u \<and> invalid_url a u = None \<longrightarrow>
            (\<exists>hs nonce. sent (snd (update_registration a (Some r) s)) =
               sent s @ [\<lparr>req_method = GET, req_url = d, req_headers = DEFAULT_HEADERS a, req_data = None\<rparr>,
                         \<lparr>req_method = POST, req_url = u, req_headers = hs,
                            req_data = Some (sign_request a (key a) (generate_header a (key a))
                              (AList.update ''nonce'' nonce (generate_header a (key a)))
                              (AList.update ''resource'' (PStr ''reg'') (dicts s ! r)))\<rparr>]))"
proof -
  note e = update_registration_dicts [OF assms, of a]
  have m: "map_of (dicts (snd (update_registration a (Some r) s)) ! r)
             = (map_of (dicts s ! r))(''resource'' \<mapsto> PStr ''reg'')"
    by (simp add: e AList.update_conv')
  have n: "map_of (dicts s ! r) ''resource'' \<noteq> Some (PStr ''reg'') \<longrightarrow>
            dicts (snd (update_registration a (Some r) s)) ! r \<noteq> dicts s ! r"
    using m by (metis fun_upd_same)
  have p: "\<forall>d t u. path a ''/directory'' = Inr d \<and> invalid_url a d = None
                  \<and> account_uri s = Some t \<and> path a t = Inr u \<and> invalid_url a u = None \<longrightarrow>
            (\<exists>hs nonce. sent (snd (update_registration a (Some r) s)) =
               sent s @ [\<lparr>req_method = GET, req_url = d, req_headers = DEFAULT_HEADERS a, req_data = None\<rparr>,
                         \<lparr>req_method = POST, req_url = u, req_headers = hs,
                            req_data = Some (sign_request a (key a) (generate_header a (key a))
                              (AList.update ''nonce'' nonce (generate_header a (key a)))
                              (AList.update ''resource'' (PStr ''reg'') (dicts s ! r)))\<rparr>])"
    using update_registration_sent [OF assms] by blast
  from e m n p show ?thesis by (intro conjI)
qed

theorem update_registration_mutates_params_witness:
  "dicts (snd (update_registration (ex_acme ex_directory (ex_response 200 None (Inr PNone))) (Some 0)
                 (ex_state [[(''agreement'', PStr ''https://ca.example/terms'')]]))) ! 0
     = [(''agreement'', PStr ''https://ca.example/terms''), (''resource'', PStr ''reg'')]
   \<and> dicts (snd (update_registration (ex_acme ex_directory (ex_response 200 None (Inr PNone))) (Some 0)
                 (ex_state [[(''agreement'', PStr ''https://ca.example/terms'')]]))) ! 0
     \<noteq> [(''agreement'', PStr ''https://ca.example/terms'')]
   \<and> length (sent (snd (update_registration (ex_acme ex_directory (ex_response 200 None (Inr PNone))) (Some 0)
                 (ex_state [[(''agreement'', PStr ''https://ca.example/terms'')]])))) = 2"
proof -
  let ?s = "ex_state [[(''agreement'', PStr ''https://ca.example/terms'')]]"
  have a: "0 < length (dicts ?s)" and b: "dicts ?s ! 0 \<noteq> []"
    and c: "dicts ?s ! 0 = [(''agreement'', PStr ''https://ca.example/terms'')]"
    and d: "account_uri ?s = Some ''https://ca.example/acme/reg/1''" and e: "sent ?s = []"
    by (simp_all add: ex_state_def)
  note t = update_registration_mutates_params
             [OF a b, where a = "ex_acme ex_directory (ex_response 200 None (Inr PNone))"]
  have 1: "dicts (snd (update_registration (ex_acme ex_directory (ex_response 200 None (Inr PNone))) (Some 0) ?s)) ! 0
             = [(''agreement'', PStr ''https://ca.example/terms''), (''resource'', PStr ''reg'')]"
    using t [THEN conjunct1] by (simp add: c)
  have 2: "length (sent (snd (update_registration (ex_acme ex_directory (ex_response 200 None (Inr PNone)))
                                (Some 0) ?s))) = 2"
    using t [THEN conjunct2, THEN conjunct2, THEN conjunct2, rule_format,
             OF conjI [OF ex_path_directory conjI [OF ex_url conjI [OF d conjI [OF ex_path_reg ex_url]]]]]
    by (auto simp: e)
  from 1 2 show ?thesis by simp
qed

text \<open>
  Claim C10 as stated fails on a dictionary that already holds \<open>'resource': 'reg'\<close>: it is
  not empty, and after the call it is what it was.
\<close>

theorem update_registration_counterexample:
  "dicts (ex_state [[(''resource'', PStr ''reg'')]]) ! 0 \<noteq> []
   \<and> dicts (snd (update_registration (ex_acme ex_directory (ex_response 200 None (Inr PNone))) (Some 0)
                   (ex_state [[(''resource'', PStr ''reg'')]]))) ! 0
       = dicts (ex_state [[(''resource'', PStr ''reg'')]]) ! 0"
proof -
  have "0 < length (dicts (ex_state [[(''resource'', PStr ''reg'')]]))"
    and "dicts (ex_state [[(''resource'', PStr ''reg'')]]) ! 0 = [(''resource'', PStr ''reg'')]"
    by (simp_all add: ex_state_def)
  then show ?thesis
    using update_registration_dicts
            [of 0 "ex_state [[(''resource'', PStr ''reg'')]]"
                "ex_acme ex_directory (ex_response 200 None (Inr PNone))"]
    by simp
qed

section \<open>Resolving a URL against the base\<close>

lemma filter_safe:
  assumes "\<forall>c \<in> set p. \<not> unsafe_url_byte c"
  shows "filter (\<lambda>c. \<not> unsafe_url_byte c) p = p"
  using assms by (induction p) auto

lemma urlparse_empty: "urlparse l [] [] = Inr ([], [], [], [], [], [])"
  by (simp add: urlparse_def urlsplit_def strip_def str_find_def checknetloc_def Let_def)

lemma split_once_fst_subset: "set (fst (split_once d u)) \<subseteq> set u"
  by (auto simp: split_once_def dest: set_takeWhileD)

lemma splitnetloc_snd_subset: "set (snd (splitnetloc u k)) \<subseteq> set u"
  by (auto simp: splitnetloc_def Let_def dest: in_set_dropD)

lemma splitparams_fst_subset: "set (fst (splitparams u)) \<subseteq> set u"
  by (auto simp: splitparams_def split: option.splits dest: in_set_takeD in_set_butlastD)

lemma urlsplit_path_subset:
  assumes "urlsplit l p s0 = Inr (sch, netloc, x, q, f)"
  shows "set x \<subseteq> set (filter (\<lambda>c. \<not> unsafe_url_byte c) (dropWhile c0_control_or_space p))"
proof -
  define url1 where "url1 = filter (\<lambda>c. \<not> unsafe_url_byte c) (dropWhile c0_control_or_space p)"
  define sx where "sx = (case str_find CHR '':'' url1 of
               Some i \<Rightarrow>
                 if 0 < i \<and> ascii_alpha (hd url1) \<and> (\<forall>c \<in> set (take i url1). c \<in> set scheme_chars)
                 then (map lower_char (take i url1), drop (i + 1) url1)
                 else (filter (\<lambda>c. \<not> unsafe_url_byte c) (strip c0_control_or_space s0), url1)
             | None \<Rightarrow> (filter (\<lambda>c. \<not> unsafe_url_byte c) (strip c0_control_or_space s0), url1))"
  define nx where "nx = (if take 2 (snd sx) = ''//'' then splitnetloc (snd sx) 2 else ('''', snd sx))"
  define fx where "fx = (if CHR ''#'' \<in> set (snd nx) then split_once CHR ''#'' (snd nx) else (snd nx, ''''))"
  define qx where "qx = (if CHR ''?'' \<in> set (fst fx) then split_once CHR ''?'' (fst fx) else (fst fx, ''''))"
  have 2: "set (snd sx) \<subseteq> set url1"
    by (auto simp: sx_def split: option.splits dest: in_set_dropD)
  have 3: "set (snd nx) \<subseteq> set (snd sx)"
    using splitnetloc_snd_subset [of "snd sx" 2] by (auto simp: nx_def)
  have 4: "set (fst fx) \<subseteq> set (snd nx)"
    using split_once_fst_subset [of "CHR ''#''" "snd nx"] by (auto simp: fx_def)
  have 5: "set (fst qx) \<subseteq> set (fst fx)"
    using split_once_fst_subset [of "CHR ''?''" "fst fx"] by (auto simp: qx_def)
  have eq: "urlsplit l p s0 =
     (if take 2 (snd sx) = ''//'' \<and> (CHR ''['' \<in> set (fst nx)) \<noteq> (CHR '']'' \<in> set (fst nx))
           then Inl (ValueError ''Invalid IPv6 URL'')
         else if take 2 (snd sx) = ''//'' \<and> CHR ''['' \<in> set (fst nx) \<and> CHR '']'' \<in> set (fst nx)
                 \<and> check_bracketed_host l (bracketed_host (fst nx)) \<noteq> None
           then Inl (ValueError (the (check_bracketed_host l (bracketed_host (fst nx)))))
         else (case checknetloc l (fst nx) of
                 Some msg \<Rightarrow> Inl (ValueError msg)
               | None \<Rightarrow> Inr (fst sx, fst nx, fst qx, snd qx, snd fx)))"
    unfolding urlsplit_def Let_def case_prod_beta qx_def fx_def nx_def sx_def url1_def ..
  from assms have "x = fst qx"
    unfolding eq by (simp split: if_splits option.splits)
  with 2 3 4 5 show ?thesis
    unfolding url1_def by blast
qed

lemma urlparse_path_safe:
  assumes "urlparse l p s0 = Inr (sch, netloc, pp, pa, q, f)"
  shows "\<forall>c \<in> set pp. \<not> unsafe_url_byte c"
proof -
  from assms obtain x where x: "urlsplit l p s0 = Inr (sch, netloc, x, q, f)"
    and pp: "pp = x \<or> pp = fst (splitparams x)"
    by (auto simp: urlparse_def Let_def case_prod_beta split: sum.splits if_splits)
  from pp splitparams_fst_subset [of x] have "set pp \<subseteq> set x"
    by auto
  with urlsplit_path_subset [OF x] show ?thesis
    by auto
qed


lemma uses_relative_netloc: "b \<in> set uses_relative \<Longrightarrow> b \<in> set uses_netloc"
  by (auto simp: uses_relative_def uses_netloc_def)

lemma uses_relative_clean:
  "b \<in> set uses_relative \<Longrightarrow>
     filter (\<lambda>c. \<not> unsafe_url_byte c) (strip c0_control_or_space b) = b"
  by (auto simp: uses_relative_def strip_def c0_control_or_space_def unsafe_url_byte_def)

lemma urlsplit_rooted:
  assumes "take 1 pp = ''/''" and "take 2 pp \<noteq> ''//''"
    and "\<forall>c \<in> set pp. \<not> unsafe_url_byte c" and "b \<in> set uses_relative"
  shows "\<exists>x q f. urlsplit l pp b = Inr (b, [], x, q, f)"
proof -
  from assms(1) obtain p' where pp: "pp = CHR ''/'' # p'"
    by (cases pp) auto
  have f: "filter (\<lambda>c. \<not> unsafe_url_byte c) (dropWhile c0_control_or_space pp) = pp"
    using filter_safe [OF assms(3)] by (simp add: pp c0_control_or_space_def)
  have a: "\<not> ascii_alpha (hd pp)"
    by (simp add: pp ascii_alpha_def ascii_lowercase_def ascii_uppercase_def)
  show ?thesis
    unfolding urlsplit_def f uses_relative_clean [OF assms(4)]
    using a assms(2)
    by (simp add: Let_def checknetloc_def case_prod_beta split: option.splits)
qed

lemma urlparse_rooted:
  assumes "take 1 pp = ''/''" and "take 2 pp \<noteq> ''//''"
    and "\<forall>c \<in> set pp. \<not> unsafe_url_byte c" and "b \<in> set uses_relative"
  shows "\<exists>x y q f. urlparse l pp b = Inr (b, [], x, y, q, f)"
proof -
  from urlsplit_rooted [OF assms, of l] obtain x q f where
    "urlsplit l pp b = Inr (b, [], x, q, f)"
    by blast
  then show ?thesis
    by (simp add: urlparse_def Let_def case_prod_beta)
qed

lemma urljoin_rooted:
  assumes "urlparse l base [] = Inr (b, bn, bpath, bparams, bquery, bfragment)"
    and "b \<in> set uses_relative"
    and "take 1 pp = ''/''" and "take 2 pp \<noteq> ''//''"
    and "\<forall>c \<in> set pp. \<not> unsafe_url_byte c"
    and "base \<noteq> []"
  shows "\<exists>x y q f. urljoin l base pp = Inr (urlunparse (b, bn, x, y, q, f))"
proof -
  from urlparse_rooted [OF assms(3) assms(4) assms(5) assms(2), of l] obtain x y q f where
    u: "urlparse l pp b = Inr (b, [], x, y, q, f)"
    by blast
  from assms(3) have n: "pp \<noteq> []"
    by auto
  show ?thesis
  proof (cases "x = [] \<and> y = []")
    case True
    then have "urljoin l base pp
                 = Inr (urlunparse (b, bn, bpath, bparams, (if q = [] then bquery else q), f))"
      using assms(1,2,6) n u uses_relative_netloc [OF assms(2)]
      by (simp add: urljoin_def Let_def)
    then show ?thesis by blast
  next
    case False
    then have c: "(x = [] \<and> y = []) = False"
      by simp
    have "\<exists>j. urljoin l base pp = Inr (urlunparse (b, bn, j, y, q, f))"
      using assms(1,2,6) n u uses_relative_netloc [OF assms(2)]
      by (simp add: urljoin_def Let_def c split del: if_split) (rule exI, rule refl)
    then show ?thesis by blast
  qed
qed

lemma urlunparse_prefix:
  assumes "b \<noteq> []" and "bn \<noteq> []"
  shows "\<exists>rest. urlunparse (b, bn, x, y, q, f) = b @ ''://'' @ bn @ rest"
  using assms by (simp add: urlunparse_def urlunsplit_def Let_def)

lemma path_onto_base:
  assumes "startswith p ''http''"
    and "urlparse (lib a) p [] = Inr (sch, netloc, pp, params, query, fragment)"
    and "pp = [] \<or> (take 1 pp = ''/'' \<and> take 2 pp \<noteq> ''//'')"
    and "urlparse (lib a) (url a) [] = Inr (b, bn, bpath, bparams, bquery, bfragment)"
    and "b \<in> set uses_relative"
  shows "path a p = urljoin (lib a) (url a) pp"
    and "path a p = Inr (url a) \<or> (\<exists>x y q f. path a p = Inr (urlunparse (b, bn, x, y, q, f)))"
    and "b \<noteq> [] \<and> bn \<noteq> [] \<longrightarrow>
           path a p = Inr (url a) \<or> (\<exists>rest. path a p = Inr (b @ ''://'' @ bn @ rest))"
proof -
  show 1: "path a p = urljoin (lib a) (url a) pp"
    using assms(1,2) by (simp add: path_def)
  show 2: "path a p = Inr (url a) \<or> (\<exists>x y q f. path a p = Inr (urlunparse (b, bn, x, y, q, f)))"
  proof (cases "pp = []")
    case True
    then show ?thesis
      by (simp add: 1 urljoin_def)
  next
    case False
    with assms(3) have r: "take 1 pp = ''/''" "take 2 pp \<noteq> ''//''"
      by auto
    show ?thesis
    proof (cases "url a = []")
      case True
      with assms(4) have "b = []" "bn = []"
        by (simp_all add: urlparse_empty)
      moreover have "urlunparse ([], [], pp, [], [], []) = pp"
        using r(2) by (simp add: urlunparse_def urlunsplit_def)
      moreover have "path a p = Inr pp"
        using True by (simp add: 1 urljoin_def)
      ultimately show ?thesis
        by metis
    next
      case n: False
      from urljoin_rooted [OF assms(4) assms(5) r urlparse_path_safe [OF assms(2)] n]
      show ?thesis
        by (simp add: 1)
    qed
  qed
  show "b \<noteq> [] \<and> bn \<noteq> [] \<longrightarrow>
           path a p = Inr (url a) \<or> (\<exists>rest. path a p = Inr (b @ ''://'' @ bn @ rest))"
  proof
    assume h: "b \<noteq> [] \<and> bn \<noteq> []"
    from 2 show "path a p = Inr (url a) \<or> (\<exists>rest. path a p = Inr (b @ ''://'' @ bn @ rest))"
    proof
      assume "path a p = Inr (url a)"
      then show ?thesis by blast
    next
      assume "\<exists>x y q f. path a p = Inr (urlunparse (b, bn, x, y, q, f))"
      then obtain x y q f where e: "path a p = Inr (urlunparse (b, bn, x, y, q, f))"
        by blast
      from h urlunparse_prefix [of b bn x y q f] obtain rest where
        "urlunparse (b, bn, x, y, q, f) = b @ ''://'' @ bn @ rest"
        by blast
      with e show ?thesis by auto
    qed
  qed
qed


text \<open>
  Claim C5, as amended. Every request that \<open>get\<close> and \<open>post\<close> send (the nonce fetch, each
  signed \<open>POST\<close>, the poll of an authorization) goes to the URL that \<open>path\<close> makes of the
  given one. Let the base URL parse with a scheme that \<open>urljoin\<close> resolves relative
  references for (\<open>http\<close> and \<open>https\<close> are such schemes), and let the given URL start with
  \<open>http\<close> and have a path component, as \<open>urlparse\<close> splits it, that is empty or begins
  with exactly one \<open>/\<close>. Then \<open>path\<close> joins that path component alone to the base,
  whatever the scheme, the host, the query and the fragment of the given URL; the result
  is the base URL itself or a URL assembled from the scheme and the network location of
  the base, \<open>scheme://netloc\<close> followed by the rest. The \<open>GET\<close> of \<open>issue_certificate\<close> for
  the issuer certificate is sent to the URL of the \<open>Link\<close> header as it stands.
\<close>

theorem requests_go_to_resolved_url:
  "(\<forall>p hdrs s r s'. get a p hdrs s = (Inr r, s') \<longrightarrow>
      (\<exists>u hs. path a p = Inr u
         \<and> sent s' = sent s @ [\<lparr>req_method = GET, req_url = u, req_headers = hs, req_data = None\<rparr>]))
   \<and> (\<forall>p body hdrs s r s'. post a p body hdrs s = (Inr r, s') \<longrightarrow>
      (\<exists>u hs. path a p = Inr u
         \<and> sent s' = sent s @ [\<lparr>req_method = POST, req_url = u, req_headers = hs, req_data = Some body\<rparr>]))
   \<and> (\<forall>p scheme netloc ppath params query fragment bscheme bnetloc bpath bparams bquery bfragment.
          startswith p ''http''
          \<and> urlparse (lib a) p [] = Inr (scheme, netloc, ppath, params, query, fragment)
          \<and> (ppath = [] \<or> (take 1 ppath = ''/'' \<and> take 2 ppath \<noteq> ''//''))
          \<and> urlparse (lib a) (url a) [] = Inr (bscheme, bnetloc, bpath, bparams, bquery, bfragment)
          \<and> bscheme \<in> set uses_relative \<longrightarrow>
        path a p = urljoin (lib a) (url a) ppath
        \<and> (path a p = Inr (url a)
             \<or> (\<exists>x y q f. path a p = Inr (urlunparse (bscheme, bnetloc, x, y, q, f))))
        \<and> (bscheme \<noteq> [] \<and> bnetloc \<noteq> [] \<longrightarrow>
             path a p = Inr (url a)
             \<or> (\<exists>rest. path a p = Inr (bscheme @ ''://'' @ bnetloc @ rest))))
   \<and> (\<forall>s header protected s1 csr response s2 chain.
          get_headers a s = (Inr (header, protected), s1)
          \<and> post a ''/acme/new-cert''
               (sign_request a (key a) (dicts s1 ! header) (dicts s1 ! protected)
                  [(''resource'', PStr ''new-cert''), (''csr'', PStr csr)])
               (Some [(''Accept'', ''application/pkix-cert'')]) s1 = (Inr response, s2)
          \<and> status_code response = 201
          \<and> get_link (headers response ''Link'') ''up'' = Inr (Some chain) \<and> chain \<noteq> []
          \<and> invalid_url a chain = None \<longrightarrow>
        sent (snd (issue_certificate a csr s)) =
          sent s2 @ [\<lparr>req_method = GET, req_url = chain, req_headers = DEFAULT_HEADERS a,
                       req_data = None\<rparr>])"
proof (intro conjI allI impI)
  fix p hdrs s r s'
  assume "get a p hdrs s = (Inr r, s')"
  then show "\<exists>u hs. path a p = Inr u
         \<and> sent s' = sent s @ [\<lparr>req_method = GET, req_url = u, req_headers = hs, req_data = None\<rparr>]"
    by (rule get_sent [THEN exE]) blast
next
  fix p body hdrs s r s'
  assume "post a p body hdrs s = (Inr r, s')"
  then show "\<exists>u hs. path a p = Inr u
         \<and> sent s' = sent s @ [\<lparr>req_method = POST, req_url = u, req_headers = hs, req_data = Some body\<rparr>]"
    by (rule post_sent [THEN exE]) blast
next
  fix p scheme netloc ppath params query fragment bscheme bnetloc bpath bparams bquery bfragment
  assume h: "startswith p ''http''
          \<and> urlparse (lib a) p [] = Inr (scheme, netloc, ppath, params, query, fragment)
          \<and> (ppath = [] \<or> (take 1 ppath = ''/'' \<and> take 2 ppath \<noteq> ''//''))
          \<and> urlparse (lib a) (url a) [] = Inr (bscheme, bnetloc, bpath, bparams, bquery, bfragment)
          \<and> bscheme \<in> set uses_relative"
  then have 1: "startswith p ''http''"
    and 2: "urlparse (lib a) p [] = Inr (scheme, netloc, ppath, params, query, fragment)"
    and 3: "ppath = [] \<or> (take 1 ppath = ''/'' \<and> take 2 ppath \<noteq> ''//'')"
    and 4: "urlparse (lib a) (url a) [] = Inr (bscheme, bnetloc, bpath, bparams, bquery, bfragment)"
    and 5: "bscheme \<in> set uses_relative"
    by blast+
  show "path a p = urljoin (lib a) (url a) ppath"
    by (rule path_onto_base(1) [OF 1 2 3 4 5])
  show "path a p = Inr (url a)
          \<or> (\<exists>x y q f. path a p = Inr (urlunparse (bscheme, bnetloc, x, y, q, f)))"
    by (rule path_onto_base(2) [OF 1 2 3 4 5])
  assume "bscheme \<noteq> [] \<and> bnetloc \<noteq> []"
  then show "path a p = Inr (url a)
          \<or> (\<exists>rest. path a p = Inr (bscheme @ ''://'' @ bnetloc @ rest))"
    using path_onto_base(3) [OF 1 2 3 4 5] by blast
next
  fix s header protected s1 csr response s2 chain
  assume "get_headers a s = (Inr (header, protected), s1)
          \<and> post a ''/acme/new-cert''
               (sign_request a (key a) (dicts s1 ! header) (dicts s1 ! protected)
                  [(''resource'', PStr ''new-cert''), (''csr'', PStr csr)])
               (Some [(''Accept'', ''application/pkix-cert'')]) s1 = (Inr response, s2)
          \<and> status_code response = 201
          \<and> get_link (headers response ''Link'') ''up'' = Inr (Some chain) \<and> chain \<noteq> []
          \<and> invalid_url a chain = None"
  then show "sent (snd (issue_certificate a csr s)) =
          sent s2 @ [\<lparr>req_method = GET, req_url = chain, req_headers = DEFAULT_HEADERS a,
                       req_data = None\<rparr>]"
    by (simp add: issue_certificate_run)
qed

theorem requests_go_to_resolved_url_witness:
  "path (ex_acme ex_directory ex_directory) ''https://attacker.example/acme/new-authz''
     = Inr ''https://ca.example/acme/new-authz''
   \<and> path (ex_acme ex_directory ex_directory) ''http://attacker.example/acme/authz/5?x=1#f''
     = Inr ''https://ca.example/acme/authz/5''
   \<and> path (ex_acme_at ''http://localhost:4000/'' ex_directory ex_directory)
        ''https://attacker.example/acme/authz/5''
     = Inr ''http://localhost:4000/acme/authz/5''
   \<and> (\<exists>hs. sent (snd (get (ex_acme ex_directory ex_directory) ''/directory'' None (ex_state [])))
            = [\<lparr>req_method = GET, req_url = ''https://ca.example/directory'', req_headers = hs,
                 req_data = None\<rparr>])
   \<and> (\<exists>hs. sent (snd (post (ex_acme ex_directory ex_directory) ''/acme/new-reg'' ''signed'' None (ex_state [])))
            = [\<lparr>req_method = POST, req_url = ''https://ca.example/acme/new-reg'', req_headers = hs,
                 req_data = Some ''signed''\<rparr>])
   \<and> last (sent (snd (issue_certificate
                        (ex_acme ex_directory
                           (ex_response 201 (Some ''<https://ca.example/issuer>;rel=up'') (Inr PNone)))
                        ''CSR'' (ex_state []))))
       = \<lparr>req_method = GET, req_url = ''https://ca.example/issuer'',
          req_headers = DEFAULT_HEADERS (ex_acme ex_directory
                           (ex_response 201 (Some ''<https://ca.example/issuer>;rel=up'') (Inr PNone))),
          req_data = None\<rparr>"
proof -
  let ?a = "ex_acme ex_directory ex_directory"
  let ?b = "ex_acme_at ''http://localhost:4000/'' ex_directory ex_directory"
  let ?r = "ex_response 201 (Some ''<https://ca.example/issuer>;rel=up'') (Inr PNone)"
  note t = requests_go_to_resolved_url
  have e: "sent (ex_state []) = []"
    by (simp add: ex_state_def)
  have c1: "startswith ''https://attacker.example/acme/new-authz'' ''http''
          \<and> urlparse (lib ?a) ''https://attacker.example/acme/new-authz'' []
              = Inr (''https'', ''attacker.example'', ''/acme/new-authz'', [], [], [])
          \<and> (''/acme/new-authz'' = [] \<or> (take 1 ''/acme/new-authz'' = ''/'' \<and> take 2 ''/acme/new-authz'' \<noteq> ''//''))
          \<and> urlparse (lib ?a) (url ?a) [] = Inr (''https'', ''ca.example'', ''/'', [], [], [])
          \<and> ''https'' \<in> set uses_relative"
    by (simp add: url_defs ex_acme_def ex_lib_def)
  have c2: "startswith ''http://attacker.example/acme/authz/5?x=1#f'' ''http''
          \<and> urlparse (lib ?a) ''http://attacker.example/acme/authz/5?x=1#f'' []
              = Inr (''http'', ''attacker.example'', ''/acme/authz/5'', [], ''x=1'', ''f'')
          \<and> (''/acme/authz/5'' = [] \<or> (take 1 ''/acme/authz/5'' = ''/'' \<and> take 2 ''/acme/authz/5'' \<noteq> ''//''))
          \<and> urlparse (lib ?a) (url ?a) [] = Inr (''https'', ''ca.example'', ''/'', [], [], [])
          \<and> ''https'' \<in> set uses_relative"
    by (simp add: url_defs ex_acme_def ex_lib_def)
  have c3: "startswith ''https://attacker.example/acme/authz/5'' ''http''
          \<and> urlparse (lib ?b) ''https://attacker.example/acme/authz/5'' []
              = Inr (''https'', ''attacker.example'', ''/acme/authz/5'', [], [], [])
          \<and> (''/acme/authz/5'' = [] \<or> (take 1 ''/acme/authz/5'' = ''/'' \<and> take 2 ''/acme/authz/5'' \<noteq> ''//''))
          \<and> urlparse (lib ?b) (url ?b) [] = Inr (''http'', ''localhost:4000'', ''/'', [], [], [])
          \<and> ''http'' \<in> set uses_relative"
    by (simp add: url_defs ex_acme_at_def ex_acme_def ex_lib_def)
  have j1: "urljoin (lib ?a) (url ?a) ''/acme/new-authz'' = Inr ''https://ca.example/acme/new-authz''"
    and j2: "urljoin (lib ?a) (url ?a) ''/acme/authz/5'' = Inr ''https://ca.example/acme/authz/5''"
    by (simp_all add: url_defs ex_acme_def ex_lib_def)
  have j3: "urljoin (lib ?b) (url ?b) ''/acme/authz/5'' = Inr ''http://localhost:4000/acme/authz/5''"
    by (simp add: url_defs ex_acme_at_def ex_acme_def ex_lib_def)
  have 1: "path ?a ''https://attacker.example/acme/new-authz'' = Inr ''https://ca.example/acme/new-authz''"
    using t [where a = ?a, THEN conjunct2, THEN conjunct2, THEN conjunct1, rule_format, OF c1, THEN conjunct1]
    by (simp only: j1)
  have 2: "path ?a ''http://attacker.example/acme/authz/5?x=1#f'' = Inr ''https://ca.example/acme/authz/5''"
    using t [where a = ?a, THEN conjunct2, THEN conjunct2, THEN conjunct1, rule_format, OF c2, THEN conjunct1]
    by (simp only: j2)
  have 3: "path ?b ''https://attacker.example/acme/authz/5'' = Inr ''http://localhost:4000/acme/authz/5''"
    using t [where a = ?b, THEN conjunct2, THEN conjunct2, THEN conjunct1, rule_format, OF c3, THEN conjunct1]
    by (simp only: j3)
  have 4: "\<exists>hs. sent (snd (get ?a ''/directory'' None (ex_state [])))
            = [\<lparr>req_method = GET, req_url = ''https://ca.example/directory'', req_headers = hs,
                 req_data = None\<rparr>]"
    using t [where a = ?a, THEN conjunct1, rule_format,
             OF ex_get [OF ex_path_directory ex_url, where s = "ex_state []"]]
    by (auto simp: e ex_path_directory)
  have 5: "\<exists>hs. sent (snd (post ?a ''/acme/new-reg'' ''signed'' None (ex_state [])))
            = [\<lparr>req_method = POST, req_url = ''https://ca.example/acme/new-reg'', req_headers = hs,
                 req_data = Some ''signed''\<rparr>]"
    using t [where a = ?a, THEN conjunct2, THEN conjunct1, rule_format,
             OF ex_post [OF ex_path_new_reg ex_url, where s = "ex_state []" and body = "''signed''" and hdrs = None]]
    by (auto simp: e ex_path_new_reg)
  have r: "status_code ?r = 201"
      "get_link (headers ?r ''Link'') ''up'' = Inr (Some ''https://ca.example/issuer'')"
    by (simp_all add: ex_response_def get_link_def strip_def py_isspace_def str_find_def)
  have 6: "last (sent (snd (issue_certificate (ex_acme ex_directory ?r) ''CSR'' (ex_state []))))
       = \<lparr>req_method = GET, req_url = ''https://ca.example/issuer'',
          req_headers = DEFAULT_HEADERS (ex_acme ex_directory ?r), req_data = None\<rparr>"
    using t [where a = "ex_acme ex_directory ?r", THEN conjunct2, THEN conjunct2, THEN conjunct2,
             rule_format,
             OF conjI [OF ex_get_headers [of ex_directory ?r "ex_state []"]
                  conjI [OF ex_post [OF ex_path_new_cert ex_url]
                    conjI [OF r(1) conjI [OF r(2) conjI [OF _ ex_url]]]]]]
    by simp
  from 1 2 3 4 5 6 show ?thesis by (intro conjI)
qed

text \<open>
  Claim C5 as stated fails for the issuer certificate: \<open>issue_certificate\<close> calls
  \<open>requests.get(chain)\<close>, not \<open>self.get(chain)\<close>, so with the base \<open>https://ca.example/\<close>
  and an \<open>up\<close> link to another host the last request goes to that host.
\<close>

theorem issuer_fetch_counterexample:
  "url (ex_acme ex_directory
          (ex_response 201 (Some ''<https://attacker.example/issuer>;rel=up'') (Inr PNone)))
     = ''https://ca.example/''
   \<and> req_url (last (sent (snd (issue_certificate
                 (ex_acme ex_directory
                    (ex_response 201 (Some ''<https://attacker.example/issuer>;rel=up'') (Inr PNone)))
                 ''CSR'' (ex_state [])))))
     = ''https://attacker.example/issuer''"
proof -
  let ?r = "ex_response 201 (Some ''<https://attacker.example/issuer>;rel=up'') (Inr PNone)"
  have r: "status_code ?r = 201"
      "get_link (headers ?r ''Link'') ''up'' = Inr (Some ''https://attacker.example/issuer'')"
    by (simp_all add: ex_response_def get_link_def strip_def py_isspace_def str_find_def)
  have u: "url (ex_acme ex_directory ?r) = ''https://ca.example/''"
    by (simp add: ex_acme_def)
  show ?thesis
    by (simp add: ex_issue_certificate r u ex_url)
qed

section \<open>Where \<open>path\<close> leaves the base\<close>

text \<open>
  Claim C4. On the example of the specification \<open>path\<close> does what the claim says. It
  does not do so for every absolute URL: a path component that begins with \<open>//\<close> is a
  network-path reference, which \<open>urljoin\<close> resolves to the host it names, and a scheme
  written in capitals does not start with \<open>http\<close>, so the URL is joined as it is and
  keeps its own host. In both cases the result is outside \<open>https://ca.example/\<close>.
\<close>

theorem path_escapes_base:
  "path (ex_acme ex_directory ex_directory) ''https://attacker.example/acme/new-authz''
     = Inr ''https://ca.example/acme/new-authz''
   \<and> path (ex_acme ex_directory ex_directory) ''https://attacker.example//evil.example/acme/new-authz''
     = Inr ''https://evil.example/acme/new-authz''
   \<and> path (ex_acme ex_directory ex_directory) ''HTTPS://attacker.example/acme/new-authz''
     = Inr ''https://attacker.example/acme/new-authz''"
  by (simp add: url_defs ex_acme_def ex_lib_def)

end
